theory Spec2Isabelle
  imports Main "HOL-Library.Sublist"
begin

section \<open>Data model of the wallet session manager\<close>

text \<open>
  The development embeds the wallet manager, the GOAT tool synchroniser and the wallet
  dependent tool handlers of \<^verbatim>\<open>server/xdcmcpserveradvRef3.ts\<close>. The class
  \<^verbatim>\<open>WalletConfigManager\<close> is the same, line for line, in
  \<^verbatim>\<open>core/tools-xdc-goat.ts\<close>.

  Console output is not part of the model. Everything outside the repository is a field
  of the record \<open>World\<close>: the process environment, the key derivation of viem, the
  construction of the GOAT tool set and the chain client. The functions that only build
  client objects (\<^verbatim>\<open>createWalletClient\<close>, \<^verbatim>\<open>createPublicClient\<close>, \<^verbatim>\<open>http\<close>) are
  taken to return. A handler runs to its end before the next one starts: the
  interleaving of handlers at their \<^verbatim>\<open>await\<close> points is not modelled.
\<close>

record Wallet =
  wallet_id :: string
  name :: string
  role :: string
  provider :: string
  privateKey :: string
  publicAddress :: string
  isActive :: bool
  description :: string

text \<open>One entry of the array \<^verbatim>\<open>configs\<close> in \<^verbatim>\<open>loadWallets\<close>.\<close>

record WalletConfig =
  env :: string
  cfg_id :: string
  cfg_name :: string
  cfg_role :: string
  cfg_provider :: string

text \<open>
  The bundle returned by \<^verbatim>\<open>getOnChainTools\<close>; the server only reads the names of
  the tools it lists.
\<close>

datatype GoatTools = GoatTools (listOfTools: "string list")

text \<open>
  A thrown exception is a value: \<open>Thrown msg\<close> stands for \<^verbatim>\<open>throw new Error(msg)\<close>
  leaving a block, \<open>Returned v\<close> for its normal completion.
\<close>

datatype 'a outcome = Returned 'a | Thrown string

text \<open>The tools of the server that work on behalf of the current wallet.\<close>

datatype Tool =
    get_current_wallet
  | get_wallet_info
  | mint_nft_advanced
  | mint_erc6960_batch
  | transfer_erc6960
  | mint_nft_with_active_wallet
  | send_eth

text \<open>
  A viem wallet client: the account it signs for and the key it signs with.
\<close>

record WalletClient =
  account :: string
  signingKey :: string

text \<open>
  The collaborators. \<open>privateKeyToAccount\<close> yields the address of a key, or throws
  where viem rejects the key. \<open>getOnChainTools n client\<close> is the result of the \<open>n\<close>-th
  construction of a tool set (counted from 0), for the given client.
  \<open>getBalance address\<close> is the
  formatted balance that the public client reads, or its failure.
  \<open>chainOperation tool client w\<close> is the part of a handler that follows the creation of
  the wallet client and talks to the chain for wallet \<open>w\<close>: it returns the text of the
  reply or throws.
\<close>

record World =
  processEnv :: "string \<Rightarrow> string option"
  privateKeyToAccount :: "string \<Rightarrow> string outcome"
  getOnChainTools :: "nat \<Rightarrow> WalletClient \<Rightarrow> GoatTools outcome"
  getBalance :: "string \<Rightarrow> string outcome"
  chainOperation :: "Tool \<Rightarrow> WalletClient \<Rightarrow> Wallet \<Rightarrow> string outcome"

text \<open>
  The fields of \<^verbatim>\<open>WalletConfigManager\<close>. The JavaScript \<^verbatim>\<open>Map\<close> is an association
  list in insertion order with one entry for each key.
\<close>

record WalletConfigManager =
  wallets :: "(string \<times> Wallet) list"
  currentWallet :: "Wallet option"
  lastActiveWalletId :: "string option"

subsection \<open>The operations of a JavaScript Map\<close>

fun map_set :: "('k \<times> 'v) list \<Rightarrow> 'k \<Rightarrow> 'v \<Rightarrow> ('k \<times> 'v) list" where
  "map_set [] k v = [(k, v)]"
| "map_set ((k', v') # m) k v = (if k' = k then (k, v) # m else (k', v') # map_set m k v)"

definition map_get :: "('k \<times> 'v) list \<Rightarrow> 'k \<Rightarrow> 'v option" where
  "map_get m k = map_of m k"

definition map_has :: "('k \<times> 'v) list \<Rightarrow> 'k \<Rightarrow> bool" where
  "map_has m k = (map_of m k \<noteq> None)"

definition map_values :: "('k \<times> 'v) list \<Rightarrow> 'v list" where
  "map_values m = map snd m"

section \<open>Loading the wallets\<close>

definition configs :: "WalletConfig list" where
  "configs =
    [\<lparr>env = ''CAT_MM_SELLER_WALLET_PRIVATE_KEY'', cfg_id = ''catmm_seller'',
        cfg_name = ''MetaMask Seller'', cfg_role = ''seller'', cfg_provider = ''metamask''\<rparr>,
     \<lparr>env = ''CAT_MM_BUYER_WALLET_PRIVATE_KEY'', cfg_id = ''catmm_buyer'',
        cfg_name = ''MetaMask Buyer'', cfg_role = ''buyer'', cfg_provider = ''metamask''\<rparr>,
     \<lparr>env = ''CAT_MM_FINANCIER_WALLET_PRIVATE_KEY'', cfg_id = ''catmm_financier'',
        cfg_name = ''MetaMask Financier'', cfg_role = ''financier'', cfg_provider = ''metamask''\<rparr>,
     \<lparr>env = ''CM_SELLER_WALLET_PRIVATE_KEY'', cfg_id = ''cm_seller'',
        cfg_name = ''Crossmint Seller'', cfg_role = ''seller'', cfg_provider = ''crossmint''\<rparr>,
     \<lparr>env = ''CM_BUYER_WALLET_PRIVATE_KEY'', cfg_id = ''cm_buyer'',
        cfg_name = ''Crossmint Buyer'', cfg_role = ''buyer'', cfg_provider = ''crossmint''\<rparr>,
     \<lparr>env = ''CVC_SELLER_WALLET_PRIVATE_KEY'', cfg_id = ''cvc_seller'',
        cfg_name = ''Civic Seller'', cfg_role = ''seller'', cfg_provider = ''civic''\<rparr>,
     \<lparr>env = ''CVC_BUYER_WALLET_PRIVATE_KEY'', cfg_id = ''cvc_buyer'',
        cfg_name = ''Civic Buyer'', cfg_role = ''buyer'', cfg_provider = ''civic''\<rparr>,
     \<lparr>env = ''WALLET_PRIVATE_KEY'', cfg_id = ''legacy_main'',
        cfg_name = ''Legacy Main Wallet'', cfg_role = ''legacy'', cfg_provider = ''legacy''\<rparr>]"

text \<open>The character class \<^verbatim>\<open>[a-fA-F0-9]\<close>.\<close>

definition isHexDigit :: "char \<Rightarrow> bool" where
  "isHexDigit c =
    (let n = (of_char c :: nat)
     in (97 \<le> n \<and> n \<le> 102) \<or> (65 \<le> n \<and> n \<le> 70) \<or> (48 \<le> n \<and> n \<le> 57))"

text \<open>\<^verbatim>\<open>/^0x[a-fA-F0-9]{64}$/.test(pk)\<close>\<close>

definition matchesKeyPattern :: "string \<Rightarrow> bool" where
  "matchesKeyPattern pk =
    (take 2 pk = ''0x'' \<and> length (drop 2 pk) = 64 \<and> list_all isHexDigit (drop 2 pk))"

text \<open>
  The test \<^verbatim>\<open>pk && pk !== '0x' && /^0x[a-fA-F0-9]{64}$/.test(pk)\<close> on the value read
  from the environment: an unset variable and the empty string are falsy.
\<close>

definition validKey :: "string option \<Rightarrow> bool" where
  "validKey v =
    (case v of
       None \<Rightarrow> False
     | Some pk \<Rightarrow> pk \<noteq> [] \<and> pk \<noteq> ''0x'' \<and> matchesKeyPattern pk)"

text \<open>The object literal built for an admitted slot.\<close>

definition makeWallet :: "WalletConfig \<Rightarrow> string \<Rightarrow> string \<Rightarrow> Wallet" where
  "makeWallet config pk address =
    \<lparr>wallet_id = cfg_id config, name = cfg_name config, role = cfg_role config,
     provider = cfg_provider config, privateKey = pk, publicAddress = address,
     isActive = False, description = cfg_name config @ '' wallet''\<rparr>"

text \<open>
  The callback of \<^verbatim>\<open>configs.forEach\<close>, on the three variables it updates: the map
  \<^verbatim>\<open>this.wallets\<close>, the array \<^verbatim>\<open>loadedWallets\<close> and the counter
  \<^verbatim>\<open>walletsLoaded\<close>. A key that viem rejects is caught and the slot is left out.
\<close>

definition loadSlot ::
  "World \<Rightarrow> (string \<times> Wallet) list \<times> Wallet list \<times> nat \<Rightarrow> WalletConfig
    \<Rightarrow> (string \<times> Wallet) list \<times> Wallet list \<times> nat" where
  "loadSlot W st config =
    (case st of (ws, loadedWallets, walletsLoaded) \<Rightarrow>
      (let pk = processEnv W (env config)
       in if validKey pk then
            (case privateKeyToAccount W (the pk) of
               Thrown e \<Rightarrow> st
             | Returned address \<Rightarrow>
                 (let wallet = makeWallet config (the pk) address
                  in (map_set ws (cfg_id config) wallet, loadedWallets @ [wallet],
                      walletsLoaded + 1)))
          else st))"

definition loadLoop :: "World \<Rightarrow> (string \<times> Wallet) list \<times> Wallet list \<times> nat" where
  "loadLoop W = foldl (loadSlot W) ([], [], 0) configs"

text \<open>
  The choice of the current wallet at the end of \<^verbatim>\<open>loadWallets\<close>:
  \<^verbatim>\<open>loadedWallets.find(w => w.id === 'catmm_seller')\<close>, else
  \<^verbatim>\<open>sellers[0] || loadedWallets[0]\<close> when the counter is positive.
\<close>

definition selectCurrent ::
  "(string \<times> Wallet) list \<Rightarrow> Wallet list \<Rightarrow> nat \<Rightarrow> WalletConfigManager" where
  "selectCurrent ws loadedWallets walletsLoaded =
    (case find (\<lambda>w. wallet_id w = ''catmm_seller'') loadedWallets of
       Some priorityWallet \<Rightarrow>
         \<lparr>wallets = ws, currentWallet = Some priorityWallet,
          lastActiveWalletId = Some (wallet_id priorityWallet)\<rparr>
     | None \<Rightarrow>
         if walletsLoaded > 0 then
           (let sellers = filter (\<lambda>w. role w = ''seller'') loadedWallets;
                fallbackWallet =
                  (case sellers of
                     s # _ \<Rightarrow> Some s
                   | [] \<Rightarrow> (case loadedWallets of w # _ \<Rightarrow> Some w | [] \<Rightarrow> None))
            in case fallbackWallet of
                 Some fw \<Rightarrow>
                   \<lparr>wallets = ws, currentWallet = Some fw,
                    lastActiveWalletId = Some (wallet_id fw)\<rparr>
               | None \<Rightarrow>
                   \<lparr>wallets = ws, currentWallet = None, lastActiveWalletId = None\<rparr>)
         else \<lparr>wallets = ws, currentWallet = None, lastActiveWalletId = None\<rparr>)"

definition loadWallets :: "World \<Rightarrow> WalletConfigManager" where
  "loadWallets W =
    (case loadLoop W of (ws, loadedWallets, walletsLoaded) \<Rightarrow>
       selectCurrent ws loadedWallets walletsLoaded)"

section \<open>The methods of the wallet manager\<close>

definition switchWallet :: "string \<Rightarrow> WalletConfigManager \<Rightarrow> bool \<times> WalletConfigManager" where
  "switchWallet i m =
    (case map_get (wallets m) i of
       None \<Rightarrow> (False, m)
     | Some wallet \<Rightarrow> (True, m\<lparr>currentWallet := Some wallet, lastActiveWalletId := Some i\<rparr>))"

definition getCurrentWallet :: "WalletConfigManager \<Rightarrow> Wallet option" where
  "getCurrentWallet m = currentWallet m"

definition getWalletsByRole :: "WalletConfigManager \<Rightarrow> string \<Rightarrow> Wallet list" where
  "getWalletsByRole m r = filter (\<lambda>w. role w = r) (map_values (wallets m))"

definition getWalletsByProvider :: "WalletConfigManager \<Rightarrow> string \<Rightarrow> Wallet list" where
  "getWalletsByProvider m p = filter (\<lambda>w. provider w = p) (map_values (wallets m))"

definition getWalletByRoleAndProvider ::
  "WalletConfigManager \<Rightarrow> string \<Rightarrow> string \<Rightarrow> Wallet option" where
  "getWalletByRoleAndProvider m r p =
    find (\<lambda>w. role w = r \<and> provider w = p) (map_values (wallets m))"

definition getAllWallets :: "WalletConfigManager \<Rightarrow> Wallet list" where
  "getAllWallets m = map_values (wallets m)"

text \<open>
  \<^verbatim>\<open>restoreLastActiveWallet\<close>: the guard
  \<^verbatim>\<open>this.lastActiveWalletId && this.wallets.has(this.lastActiveWalletId)\<close> is false for
  \<^verbatim>\<open>null\<close> and for the empty string. The method does not look at the current wallet.
\<close>

definition restoreLastActiveWallet :: "WalletConfigManager \<Rightarrow> bool \<times> WalletConfigManager" where
  "restoreLastActiveWallet m =
    (case lastActiveWalletId m of
       None \<Rightarrow> (False, m)
     | Some i \<Rightarrow>
         if i \<noteq> [] \<and> map_has (wallets m) i then
           (case map_get (wallets m) i of
              Some wallet \<Rightarrow> (True, m\<lparr>currentWallet := Some wallet\<rparr>)
            | None \<Rightarrow> (False, m))
         else (False, m))"

section \<open>The GOAT tool synchroniser\<close>

text \<open>
  The globals of the server: the wallet manager, \<^verbatim>\<open>goatTools\<close>,
  \<^verbatim>\<open>goatToolsLastWalletId\<close> and, inside the object \<^verbatim>\<open>server\<close>, the names of the
  tools that have been registered with \<^verbatim>\<open>server.tool\<close>. The field
  \<open>onChainToolsCalls\<close> is not a variable of the program: it records, in order, the
  client of every call of \<^verbatim>\<open>getOnChainTools\<close>, so that the number of constructions
  can be stated.
\<close>

record ServerState =
  walletManager :: WalletConfigManager
  goatTools :: "GoatTools option"
  goatToolsLastWalletId :: "string option"
  registeredTools :: "string list"
  onChainToolsCalls :: "WalletClient list"

text \<open>
  The tools that the module registers when it is loaded, before \<^verbatim>\<open>runServer\<close> runs.
\<close>

definition staticTools :: "string list" where
  "staticTools =
    [''switch_to_seller'', ''switch_to_buyer'', ''get_current_wallet'', ''list_wallets'',
     ''get_wallet_info'', ''mint_nft_advanced'', ''mint_erc6960_batch'',
     ''get_erc6960_balance'', ''transfer_erc6960'', ''mint_nft_with_active_wallet'',
     ''send_eth'']"

text \<open>
  The loop \<^verbatim>\<open>availableTools.forEach\<close> of \<^verbatim>\<open>initializeGoatTools\<close>: each tool is
  registered under its name with the prefix \<^verbatim>\<open>goat_\<close>. \<^verbatim>\<open>server.tool\<close> throws
  \<^verbatim>\<open>Tool ... is already registered\<close> for a name that is registered, which ends the loop;
  the names registered before stay. The result tells whether the loop completed, and
  gives the names registered after it.
\<close>

fun registerGoatTools :: "string list \<Rightarrow> string list \<Rightarrow> bool \<times> string list" where
  "registerGoatTools registered [] = (True, registered)"
| "registerGoatTools registered (tool # rest) =
    (if (''goat_'' @ tool) \<in> set registered then (False, registered)
     else registerGoatTools (registered @ [''goat_'' @ tool]) rest)"

definition createWalletClientForWallet :: "World \<Rightarrow> Wallet \<Rightarrow> WalletClient outcome" where
  "createWalletClientForWallet W wallet =
    (case privateKeyToAccount W (privateKey wallet) of
       Thrown e \<Rightarrow> Thrown e
     | Returned a \<Rightarrow> Returned \<lparr>account = a, signingKey = privateKey wallet\<rparr>)"

definition createDynamicWalletClient :: "World \<Rightarrow> ServerState \<Rightarrow> WalletClient outcome" where
  "createDynamicWalletClient W s =
    (case getCurrentWallet (walletManager s) of
       None \<Rightarrow>
         Thrown ''No active wallet. Use switch_to_seller or switch_to_buyer to activate a wallet.''
     | Some cw \<Rightarrow>
         (case privateKeyToAccount W (privateKey cw) of
            Thrown e \<Rightarrow> Thrown e
          | Returned a \<Rightarrow> Returned \<lparr>account = a, signingKey = privateKey cw\<rparr>))"

text \<open>
  \<^verbatim>\<open>initializeGoatTools(forceReinit)\<close>. Every exception of the \<^verbatim>\<open>try\<close> block,
  from the creation of the client, from \<^verbatim>\<open>getOnChainTools\<close> or from the registration
  of the tools, ends in the \<^verbatim>\<open>catch\<close> block, which resets both globals. The
  registration is part of every construction, also of one that follows an earlier
  registration of the same names.
\<close>

definition initializeGoatTools :: "World \<Rightarrow> bool \<Rightarrow> ServerState \<Rightarrow> bool \<times> ServerState" where
  "initializeGoatTools W forceReinit s =
    (case getCurrentWallet (walletManager s) of
       None \<Rightarrow> (False, s\<lparr>goatTools := None, goatToolsLastWalletId := None\<rparr>)
     | Some cw \<Rightarrow>
         if \<not> forceReinit \<and> goatTools s \<noteq> None \<and> goatToolsLastWalletId s = Some (wallet_id cw)
         then (True, s)
         else
           (case createWalletClientForWallet W cw of
              Thrown e \<Rightarrow> (False, s\<lparr>goatTools := None, goatToolsLastWalletId := None\<rparr>)
            | Returned walletClient \<Rightarrow>
                (let n = length (onChainToolsCalls s);
                     s1 = s\<lparr>onChainToolsCalls := onChainToolsCalls s @ [walletClient]\<rparr>
                 in case getOnChainTools W n walletClient of
                      Thrown e \<Rightarrow> (False, s1\<lparr>goatTools := None, goatToolsLastWalletId := None\<rparr>)
                    | Returned tools \<Rightarrow>
                        (case registerGoatTools (registeredTools s) (listOfTools tools) of
                           (True, registered) \<Rightarrow>
                             (True, s1\<lparr>goatTools := Some tools,
                                        goatToolsLastWalletId := Some (wallet_id cw),
                                        registeredTools := registered\<rparr>)
                         | (False, registered) \<Rightarrow>
                             (False, s1\<lparr>goatTools := None, goatToolsLastWalletId := None,
                                         registeredTools := registered\<rparr>)))))"

definition ensureGoatToolsForCurrentWallet :: "World \<Rightarrow> ServerState \<Rightarrow> bool \<times> ServerState" where
  "ensureGoatToolsForCurrentWallet W s =
    (case getCurrentWallet (walletManager s) of
       None \<Rightarrow> (False, s)
     | Some cw \<Rightarrow>
         if goatTools s = None \<or> goatToolsLastWalletId s \<noteq> Some (wallet_id cw)
         then initializeGoatTools W True s
         else (True, s))"

text \<open>
  The state when the server starts to serve requests: the constructor of the manager has
  run, and \<^verbatim>\<open>runServer\<close> has called \<^verbatim>\<open>initializeGoatTools()\<close>.
\<close>

definition initialState :: "World \<Rightarrow> ServerState" where
  "initialState W =
    snd (initializeGoatTools W False
      \<lparr>walletManager = loadWallets W, goatTools = None, goatToolsLastWalletId = None,
       registeredTools = staticTools, onChainToolsCalls = []\<rparr>)"

section \<open>Switching the wallet\<close>

text \<open>The fields of a wallet that the replies show.\<close>

record WalletInfo =
  info_name :: string
  info_address :: string
  info_role :: string
  info_provider :: string

definition walletInfo :: "Wallet \<Rightarrow> WalletInfo" where
  "walletInfo w =
    \<lparr>info_name = name w, info_address = publicAddress w, info_role = role w,
     info_provider = provider w\<rparr>"

text \<open>
  The replies of \<^verbatim>\<open>switch_to_seller\<close> and \<^verbatim>\<open>switch_to_buyer\<close>:
  \<open>SwitchError error availableWallets instruction\<close>,
  \<open>SwitchSuccess message wallet goatToolsReinitialized readyForOperations\<close>, and the text
  of the \<^verbatim>\<open>catch\<close> block.
\<close>

datatype SwitchResponse =
    SwitchError string "WalletInfo list" string
  | SwitchSuccess string WalletInfo bool bool
  | SwitchFailed string

text \<open>
  The two handlers are the same text but for the role: the literal in the lookups and in
  the messages, and the instruction of the error reply. \<open>switch_to_role\<close> is that text
  with the role \<open>r\<close> and the instruction as parameters.
\<close>

definition switch_to_role ::
  "string \<Rightarrow> string \<Rightarrow> World \<Rightarrow> string \<Rightarrow> ServerState \<Rightarrow> SwitchResponse \<times> ServerState" where
  "switch_to_role r instruction W p s =
    (let found =
           (if p = ''metamask'' then getWalletByRoleAndProvider (walletManager s) r ''metamask''
            else if p = ''crossmint'' then getWalletByRoleAndProvider (walletManager s) r ''crossmint''
            else if p = ''civic'' then getWalletByRoleAndProvider (walletManager s) r ''civic''
            else None);
         target =
           (case found of
              Some t \<Rightarrow> Some t
            | None \<Rightarrow> (case getWalletsByRole (walletManager s) r of [] \<Rightarrow> None | t # _ \<Rightarrow> Some t))
     in case target of
          None \<Rightarrow>
            (SwitchError (''No '' @ r @ '' wallet found'')
               (map walletInfo (getAllWallets (walletManager s))) instruction, s)
        | Some t \<Rightarrow>
            (case switchWallet (wallet_id t) (walletManager s) of
               (False, m') \<Rightarrow>
                 (SwitchFailed (''Error switching to '' @ r @ '': Failed to switch to wallet ''
                    @ wallet_id t), s\<lparr>walletManager := m'\<rparr>)
             | (True, m') \<Rightarrow>
                 (case initializeGoatTools W True (s\<lparr>walletManager := m'\<rparr>) of
                    (goatInitSuccess, s') \<Rightarrow>
                      (SwitchSuccess
                         (''Switched to '' @ r @ '' wallet'' @
                            (if provider t \<noteq> p
                             then '' ('' @ p @ '' not available, using '' @ provider t @ '')''
                             else []))
                         (walletInfo t) goatInitSuccess goatInitSuccess, s'))))"

text \<open>The argument \<^verbatim>\<open>provider\<close> is optional and defaults to \<^verbatim>\<open>'metamask'\<close>.\<close>

definition sellerInstruction :: string where
  "sellerInstruction =
    ''Set seller wallet environment variables (CAT_MM_SELLER_WALLET_PRIVATE_KEY, CM_SELLER_WALLET_PRIVATE_KEY, or CVC_SELLER_WALLET_PRIVATE_KEY)''"

definition buyerInstruction :: string where
  "buyerInstruction =
    ''Set buyer wallet environment variables (CAT_MM_BUYER_WALLET_PRIVATE_KEY, CM_BUYER_WALLET_PRIVATE_KEY, or CVC_BUYER_WALLET_PRIVATE_KEY)''"

definition switch_to_seller ::
  "World \<Rightarrow> string option \<Rightarrow> ServerState \<Rightarrow> SwitchResponse \<times> ServerState" where
  "switch_to_seller W arg s =
    switch_to_role ''seller'' sellerInstruction W
      (case arg of None \<Rightarrow> ''metamask'' | Some p \<Rightarrow> p) s"

definition switch_to_buyer ::
  "World \<Rightarrow> string option \<Rightarrow> ServerState \<Rightarrow> SwitchResponse \<times> ServerState" where
  "switch_to_buyer W arg s =
    switch_to_role ''buyer'' buyerInstruction W
      (case arg of None \<Rightarrow> ''metamask'' | Some p \<Rightarrow> p) s"

section \<open>The tools that need the current wallet\<close>

text \<open>
  The replies of these tools: \<open>NoActiveWallet error instruction\<close>;
  \<open>NoWalletConfigured message instructions\<close> (of \<^verbatim>\<open>get_wallet_info\<close>);
  \<open>CurrentWallet wallet id goatIntegration goatToolsWalletMatch readyForOperations\<close>;
  \<open>ManagedWallet wallet balance goatIntegration goatToolsWalletMatch readyForOperations\<close>,
  where the balance is missing when it could not be fetched; \<open>OperationReply text\<close>, the
  reply after a chain operation; and the replies of the \<^verbatim>\<open>catch\<close> blocks, a text or
  an object with the field \<^verbatim>\<open>error\<close>.
\<close>

datatype ToolResponse =
    NoActiveWallet string string
  | NoWalletConfigured string "string list"
  | CurrentWallet WalletInfo string bool bool bool
  | ManagedWallet WalletInfo "string option" bool bool bool
  | OperationReply string
  | ErrorText string
  | ErrorObject string

definition ensureAddress :: "string \<Rightarrow> string outcome" where
  "ensureAddress address =
    (if take 2 address = ''0x'' then Returned address
     else Thrown (''Invalid address format: '' @ address @ ''. Address must start with 0x''))"

text \<open>
  The first statement of each of these handlers:
  \<^verbatim>\<open>if (!walletManager.getCurrentWallet()) { walletManager.restoreLastActiveWallet(); }\<close>
\<close>

definition restoreIfNoCurrent :: "ServerState \<Rightarrow> ServerState" where
  "restoreIfNoCurrent s =
    (if getCurrentWallet (walletManager s) = None
     then s\<lparr>walletManager := snd (restoreLastActiveWallet (walletManager s))\<rparr>
     else s)"

text \<open>
  The \<^verbatim>\<open>try\<close> block of \<^verbatim>\<open>mint_erc6960_batch\<close>, \<^verbatim>\<open>transfer_erc6960\<close>,
  \<^verbatim>\<open>mint_nft_with_active_wallet\<close> and \<^verbatim>\<open>send_eth\<close>, which differ in the
  instruction of the first reply and in the chain operation. A client made by
  \<open>createDynamicWalletClient\<close> always has an account, so the test
  \<^verbatim>\<open>!walletClient || !walletClient.account\<close> never holds.
\<close>

definition walletOperation ::
  "World \<Rightarrow> Tool \<Rightarrow> string \<Rightarrow> ServerState \<Rightarrow> ToolResponse outcome \<times> ServerState" where
  "walletOperation W tool instruction s =
    (let s1 = restoreIfNoCurrent s
     in case getCurrentWallet (walletManager s1) of
          None \<Rightarrow> (Returned (NoActiveWallet ''No active wallet'' instruction), s1)
        | Some cw \<Rightarrow>
            (case createDynamicWalletClient W s1 of
               Thrown e \<Rightarrow> (Thrown e, s1)
             | Returned walletClient \<Rightarrow>
                 (case chainOperation W tool walletClient cw of
                    Thrown e \<Rightarrow> (Thrown e, s1)
                  | Returned text \<Rightarrow> (Returned (OperationReply text), s1))))"

fun tryBlock :: "World \<Rightarrow> Tool \<Rightarrow> ServerState \<Rightarrow> ToolResponse outcome \<times> ServerState" where
  "tryBlock W get_current_wallet s =
    (let s1 = restoreIfNoCurrent s
     in case getCurrentWallet (walletManager s1) of
          None \<Rightarrow>
            (Returned (NoActiveWallet ''No active wallet''
               ''Use switch_to_seller or switch_to_buyer to activate a wallet''), s1)
        | Some wallet \<Rightarrow>
            (case ensureGoatToolsForCurrentWallet W s1 of
               (goatReady, s2) \<Rightarrow>
                 (Returned (CurrentWallet (walletInfo wallet) (wallet_id wallet) goatReady
                    (goatToolsLastWalletId s2 = Some (wallet_id wallet)) goatReady), s2)))"
| "tryBlock W get_wallet_info s =
    (let s1 = restoreIfNoCurrent s
     in case getCurrentWallet (walletManager s1) of
          Some cw \<Rightarrow>
            (case ensureGoatToolsForCurrentWallet W s1 of
               (goatReady, s2) \<Rightarrow>
                 (let balance =
                        (case ensureAddress (publicAddress cw) of
                           Thrown e \<Rightarrow> None
                         | Returned a \<Rightarrow>
                             (case getBalance W a of
                                Thrown e \<Rightarrow> None
                              | Returned b \<Rightarrow> Some b))
                  in (Returned (ManagedWallet (walletInfo cw) balance goatReady
                        (goatToolsLastWalletId s2 = Some (wallet_id cw)) goatReady), s2)))
        | None \<Rightarrow>
            (Returned (NoWalletConfigured ''No wallet configured''
               [''Set role-based wallet environment variables:'',
                ''- CAT_MM_SELLER_WALLET_PRIVATE_KEY for MetaMask seller operations'',
                ''- CAT_MM_BUYER_WALLET_PRIVATE_KEY for MetaMask buyer operations'',
                ''- CM_SELLER_WALLET_PRIVATE_KEY for Crossmint seller operations'',
                ''- CVC_BUYER_WALLET_PRIVATE_KEY for Civic buyer operations'',
                ''Then use switch_to_seller/switch_to_buyer to activate the appropriate wallet'']),
             s1))"
| "tryBlock W mint_nft_advanced s =
    (let s1 = restoreIfNoCurrent s
     in case getCurrentWallet (walletManager s1) of
          None \<Rightarrow>
            (Returned (NoActiveWallet ''No active wallet''
               ''Use switch_to_seller (for minting) to activate the appropriate wallet''), s1)
        | Some cw \<Rightarrow>
            (case ensureGoatToolsForCurrentWallet W s1 of
               (goatReady, s2) \<Rightarrow>
                 (case createDynamicWalletClient W s2 of
                    Thrown e \<Rightarrow> (Thrown e, s2)
                  | Returned walletClient \<Rightarrow>
                      (case chainOperation W mint_nft_advanced walletClient cw of
                         Thrown e \<Rightarrow> (Thrown e, s2)
                       | Returned text \<Rightarrow> (Returned (OperationReply text), s2)))))"
| "tryBlock W mint_erc6960_batch s =
    walletOperation W mint_erc6960_batch ''Use switch_to_seller to activate a wallet'' s"
| "tryBlock W transfer_erc6960 s =
    walletOperation W transfer_erc6960
      ''Use switch_to_seller or switch_to_buyer to activate a wallet'' s"
| "tryBlock W mint_nft_with_active_wallet s =
    walletOperation W mint_nft_with_active_wallet
      ''Use switch_to_seller (for minting) or switch_to_buyer (for purchasing) to activate the appropriate wallet'' s"
| "tryBlock W send_eth s =
    walletOperation W send_eth
      ''Use switch_to_seller or switch_to_buyer to activate a wallet'' s"

fun catchBlock :: "Tool \<Rightarrow> string \<Rightarrow> ToolResponse" where
  "catchBlock get_current_wallet e = ErrorText (''Error getting current wallet: '' @ e)"
| "catchBlock get_wallet_info e = ErrorText (''Error getting wallet info: '' @ e)"
| "catchBlock mint_nft_advanced e = ErrorText (''Error minting NFT: '' @ e)"
| "catchBlock mint_erc6960_batch e = ErrorText (''Error batch minting ERC-6960 tokens: '' @ e)"
| "catchBlock transfer_erc6960 e = ErrorText (''Error transferring ERC-6960 token: '' @ e)"
| "catchBlock mint_nft_with_active_wallet e = ErrorObject e"
| "catchBlock send_eth e = ErrorText (''Error sending ETH: '' @ e)"

text \<open>
  A handler is its \<^verbatim>\<open>try\<close> block inside its \<^verbatim>\<open>catch\<close> block. The result is an
  outcome, so that a handler that lets an exception through would show as \<open>Thrown\<close>.
\<close>

definition callTool :: "World \<Rightarrow> Tool \<Rightarrow> ServerState \<Rightarrow> ToolResponse outcome \<times> ServerState" where
  "callTool W tool s =
    (case tryBlock W tool s of
       (Returned reply, s') \<Rightarrow> (Returned reply, s')
     | (Thrown e, s') \<Rightarrow> (Returned (catchBlock tool e), s'))"

text \<open>The reply of a tool when no wallet is active and none could be restored.\<close>

definition noWalletReply :: "ToolResponse \<Rightarrow> bool" where
  "noWalletReply reply =
    (case reply of
       NoActiveWallet error instruction \<Rightarrow> error = ''No active wallet''
     | NoWalletConfigured message instructions \<Rightarrow> message = ''No wallet configured''
     | _ \<Rightarrow> False)"

text \<open>The text that tells the caller which tool activates a wallet.\<close>

definition replyInstruction :: "ToolResponse \<Rightarrow> string" where
  "replyInstruction reply =
    (case reply of
       NoActiveWallet error instruction \<Rightarrow> instruction
     | NoWalletConfigured message instructions \<Rightarrow> concat instructions
     | _ \<Rightarrow> [])"

section \<open>Runs of the wallet manager\<close>

text \<open>
  The fields of the manager are private: after the constructor, only \<^verbatim>\<open>switchWallet\<close>
  and \<^verbatim>\<open>restoreLastActiveWallet\<close> assign them.
\<close>

datatype ManagerCall = SwitchWallet string | RestoreLastActiveWallet

fun applyCall :: "WalletConfigManager \<Rightarrow> ManagerCall \<Rightarrow> WalletConfigManager" where
  "applyCall m (SwitchWallet i) = snd (switchWallet i m)"
| "applyCall m RestoreLastActiveWallet = snd (restoreLastActiveWallet m)"

definition managerAfter :: "World \<Rightarrow> ManagerCall list \<Rightarrow> WalletConfigManager" where
  "managerAfter W calls = foldl applyCall (loadWallets W) calls"

text \<open>Whether \<^verbatim>\<open>lastActiveWalletId\<close> is set and is a key of the registry.\<close>

definition lastResolves :: "WalletConfigManager \<Rightarrow> bool" where
  "lastResolves m =
    (case lastActiveWalletId m of
       None \<Rightarrow> False
     | Some i \<Rightarrow> i \<noteq> [] \<and> map_has (wallets m) i)"

section \<open>Auxiliary notions for the proofs\<close>

text \<open>The wallet that a slot contributes to the registry, if any.\<close>

definition admit :: "World \<Rightarrow> WalletConfig \<Rightarrow> Wallet option" where
  "admit W config =
    (if validKey (processEnv W (env config)) then
       (case privateKeyToAccount W (the (processEnv W (env config))) of
          Thrown e \<Rightarrow> None
        | Returned address \<Rightarrow>
            Some (makeWallet config (the (processEnv W (env config))) address))
     else None)"

definition admitted :: "World \<Rightarrow> Wallet list" where
  "admitted W = List.map_filter (admit W) configs"

text \<open>Whether the key derivation accepts the secret of a slot.\<close>

definition derivable :: "World \<Rightarrow> WalletConfig \<Rightarrow> bool" where
  "derivable W config =
    (case privateKeyToAccount W (the (processEnv W (env config))) of
       Thrown e \<Rightarrow> False
     | Returned address \<Rightarrow> True)"

text \<open>
  The registry is well formed when its keys are distinct and each key is the id of its
  wallet.
\<close>

definition registryOk :: "(string \<times> Wallet) list \<Rightarrow> bool" where
  "registryOk ws = (distinct (map fst ws) \<and> list_all (\<lambda>(k, w). wallet_id w = k) ws)"

definition currentOk :: "WalletConfigManager \<Rightarrow> bool" where
  "currentOk m =
    (case currentWallet m of
       None \<Rightarrow> True
     | Some w \<Rightarrow>
         map_get (wallets m) (wallet_id w) = Some w \<and> lastActiveWalletId m = Some (wallet_id w))"

section \<open>Example configurations\<close>

definition exampleKey :: "char \<Rightarrow> string" where
  "exampleKey c = ''0x'' @ replicate 64 c"

text \<open>
  A world with the given environment, in which the key derivation rejects the key
  \<open>0\<close> (as the curve arithmetic in viem does) and derives an address from any other
  key, and in which the tool construction and the chain operations succeed. Every tool
  set lists the one tool \<open>get_address\<close>.
\<close>

definition exampleWorld :: "(string \<times> string) list \<Rightarrow> World" where
  "exampleWorld vars =
    \<lparr>processEnv = map_of vars,
     privateKeyToAccount =
       (\<lambda>pk. if pk = exampleKey CHR ''0'' then Thrown ''invalid private key''
             else Returned (take 42 pk)),
     getOnChainTools = (\<lambda>n client. Returned (GoatTools [''get_address''])),
     getBalance = (\<lambda>address. Returned ''1 TXDC''),
     chainOperation = (\<lambda>tool client w. Returned ''done'')\<rparr>"

text \<open>The same world, but every construction of the tool set fails.\<close>

definition offlineWorld :: "(string \<times> string) list \<Rightarrow> World" where
  "offlineWorld vars =
    (exampleWorld vars)\<lparr>getOnChainTools := (\<lambda>n client. Thrown ''network unreachable'')\<rparr>"

text \<open>Only the seller slot is set, to the key \<open>0\<close>, which has the required format.\<close>

definition zeroKeyWorld :: World where
  "zeroKeyWorld = exampleWorld [(''CAT_MM_SELLER_WALLET_PRIVATE_KEY'', exampleKey CHR ''0'')]"

text \<open>The Crossmint seller and the MetaMask buyer are configured, nothing else.\<close>

definition crossmintWorld :: World where
  "crossmintWorld =
    exampleWorld [(''CAT_MM_BUYER_WALLET_PRIVATE_KEY'', exampleKey CHR ''B''),
                  (''CM_SELLER_WALLET_PRIVATE_KEY'', exampleKey CHR ''a'')]"

definition crossmintSeller :: Wallet where
  "crossmintSeller = makeWallet (configs ! 3) (exampleKey CHR ''a'') (''0x'' @ replicate 40 CHR ''a'')"

definition metamaskBuyer :: Wallet where
  "metamaskBuyer = makeWallet (configs ! 1) (exampleKey CHR ''B'') (''0x'' @ replicate 40 CHR ''B'')"

text \<open>The same two slots, while every construction of the tool set fails.\<close>

definition crossmintOffline :: World where
  "crossmintOffline =
    offlineWorld [(''CAT_MM_BUYER_WALLET_PRIVATE_KEY'', exampleKey CHR ''B''),
                  (''CM_SELLER_WALLET_PRIVATE_KEY'', exampleKey CHR ''a'')]"


text \<open>The client that \<open>createWalletClientForWallet\<close> makes for a loaded wallet.\<close>

definition clientOf :: "Wallet \<Rightarrow> WalletClient" where
  "clientOf w = \<lparr>account = publicAddress w, signingKey = privateKey w\<rparr>"

text \<open>
  A state without wallets in which a tool set is still bound to an id.
\<close>

definition staleState :: ServerState where
  "staleState =
    \<lparr>walletManager = \<lparr>wallets = [], currentWallet = None, lastActiveWalletId = None\<rparr>,
     goatTools = Some (GoatTools [''get_address'']),
     goatToolsLastWalletId = Some ''cm_seller'',
     registeredTools = staticTools @ [''goat_get_address''],
     onChainToolsCalls = [clientOf crossmintSeller]\<rparr>"

text \<open>
  The two slots of \<open>crossmintWorld\<close>, in a world where the first construction of the
  tool set, the one of the start, throws and the later ones succeed.
\<close>

definition crossmintLate :: World where
  "crossmintLate =
    crossmintWorld
      \<lparr>getOnChainTools :=
         (\<lambda>n client. if n = 0 then Thrown ''network unreachable''
                     else Returned (GoatTools [''get_address'']))\<rparr>"

text \<open>No slot is configured.\<close>

definition emptyWorld :: World where
  "emptyWorld = exampleWorld []"

text \<open>
  The state after the start in \<open>crossmintWorld\<close>, but with the current wallet cleared
  while \<open>lastActiveWalletId\<close> is kept.
\<close>

definition clearedState :: ServerState where
  "clearedState =
    (initialState crossmintWorld)
      \<lparr>walletManager := (loadWallets crossmintWorld)\<lparr>currentWallet := None\<rparr>\<rparr>"

text \<open>
  The wallet that the specification selects for a role and a preferred provider: the
  exact match when there is one, else the first wallet of the role.
\<close>

definition specTarget :: "WalletConfigManager \<Rightarrow> string \<Rightarrow> string \<Rightarrow> Wallet" where
  "specTarget m r p =
    (case getWalletByRoleAndProvider m r p of
       Some exact \<Rightarrow> exact
     | None \<Rightarrow> hd (getWalletsByRole m r))"

section \<open>Facts about the load\<close>

lemma map_set_fresh: "k \<notin> fst ` set m \<Longrightarrow> map_set m k v = m @ [(k, v)]"
  by (induction m) auto

lemma foldl_map_set_fresh:
  "distinct (map wallet_id xs) \<Longrightarrow> set (map wallet_id xs) \<inter> fst ` set m = {} \<Longrightarrow>
   foldl (\<lambda>m w. map_set m (wallet_id w) w) m xs = m @ map (\<lambda>w. (wallet_id w, w)) xs"
proof (induction xs arbitrary: m)
  case Nil
  then show ?case by simp
next
  case (Cons x xs)
  have fresh: "wallet_id x \<notin> fst ` set m"
    using Cons.prems(2) by auto
  have step: "map_set m (wallet_id x) x = m @ [(wallet_id x, x)]"
    using fresh by (rule map_set_fresh)
  have d: "distinct (map wallet_id xs)"
    using Cons.prems(1) by simp
  have dis: "set (map wallet_id xs) \<inter> fst ` set (m @ [(wallet_id x, x)]) = {}"
    using Cons.prems by auto
  show ?case
    using Cons.IH [OF d dis] step by simp
qed

lemma loadSlot_admit:
  "loadSlot W (ws, l, n) c =
    (case admit W c of
       None \<Rightarrow> (ws, l, n)
     | Some w \<Rightarrow> (map_set ws (wallet_id w) w, l @ [w], n + 1))"
  by (simp add: loadSlot_def admit_def makeWallet_def Let_def split: outcome.splits)

lemma foldl_loadSlot:
  "foldl (loadSlot W) (ws, l, n) cs =
    (foldl (\<lambda>m w. map_set m (wallet_id w) w) ws (List.map_filter (admit W) cs),
     l @ List.map_filter (admit W) cs,
     n + length (List.map_filter (admit W) cs))"
  by (induction cs arbitrary: ws l n) (simp_all add: loadSlot_admit split: option.splits)

lemma admit_fields:
  assumes "admit W c = Some w"
  shows "wallet_id w = cfg_id c" and "role w = cfg_role c" and "provider w = cfg_provider c"
    and "privateKeyToAccount W (privateKey w) = Returned (publicAddress w)"
  using assms by (auto simp: admit_def makeWallet_def split: if_splits outcome.splits)

lemma ids_map_filter_admit:
  "set (map wallet_id (List.map_filter (admit W) cs)) \<subseteq> set (map cfg_id cs)"
  by (induction cs) (auto split: option.splits dest: admit_fields(1))

lemma distinct_map_filter_admit:
  "distinct (map cfg_id cs) \<Longrightarrow> distinct (map wallet_id (List.map_filter (admit W) cs))"
proof (induction cs)
  case Nil
  then show ?case by simp
next
  case (Cons c cs)
  show ?case
  proof (cases "admit W c")
    case None
    then show ?thesis using Cons by simp
  next
    case (Some w)
    have "wallet_id w = cfg_id c"
      using Some by (rule admit_fields(1))
    moreover have "cfg_id c \<notin> set (map wallet_id (List.map_filter (admit W) cs))"
      using ids_map_filter_admit [of W cs] Cons.prems by auto
    ultimately show ?thesis
      using Some Cons by simp
  qed
qed

lemma distinct_configs: "distinct (map cfg_id configs)"
  by (simp add: configs_def)

lemma distinct_admitted: "distinct (map wallet_id (admitted W))"
  unfolding admitted_def by (rule distinct_map_filter_admit [OF distinct_configs])

lemma loadLoop_eq:
  "loadLoop W = (map (\<lambda>w. (wallet_id w, w)) (admitted W), admitted W, length (admitted W))"
  using foldl_map_set_fresh [of "admitted W" "[]"] distinct_admitted [of W]
  by (simp add: loadLoop_def foldl_loadSlot admitted_def)

lemma wallets_selectCurrent: "wallets (selectCurrent ws l n) = ws"
  by (simp add: selectCurrent_def Let_def split: option.splits list.splits)

lemma wallets_loadWallets:
  "wallets (loadWallets W) = map (\<lambda>w. (wallet_id w, w)) (admitted W)"
  by (simp add: loadWallets_def loadLoop_eq wallets_selectCurrent)

lemma getAllWallets_loadWallets: "getAllWallets (loadWallets W) = admitted W"
  by (simp add: getAllWallets_def map_values_def wallets_loadWallets comp_def)

lemma admit_Some_iff:
  "(\<exists>w. admit W c = Some w) = (validKey (processEnv W (env c)) \<and> derivable W c)"
  by (simp add: admit_def derivable_def split: outcome.splits)

lemma length_admitted:
  "length (admitted W) =
    length (filter (\<lambda>c. validKey (processEnv W (env c)) \<and> derivable W c) configs)"
  by (simp add: admitted_def map_filter_def admit_Some_iff)

subsection \<open>Evaluating the example configurations\<close>

lemma isHexDigit_examples: "isHexDigit CHR ''0''" "isHexDigit CHR ''a''" "isHexDigit CHR ''B''"
  by (simp_all add: isHexDigit_def)

lemma validKey_None: "\<not> validKey None"
  by (simp add: validKey_def)

lemma validKey_exampleKey: "isHexDigit c \<Longrightarrow> validKey (Some (exampleKey c))"
  by (simp add: validKey_def matchesKeyPattern_def exampleKey_def list_all_iff)

lemma exampleKey_inject: "(exampleKey c = exampleKey d) = (c = d)"
  by (auto simp: exampleKey_def)

lemma take_42_exampleKey: "take 42 (exampleKey c) = ''0x'' @ replicate 40 c"
  by (simp add: exampleKey_def)

lemma admitted_zeroKeyWorld: "admitted zeroKeyWorld = []"
  by (simp add: zeroKeyWorld_def admitted_def configs_def admit_def exampleWorld_def
      validKey_exampleKey validKey_None isHexDigit_examples)

lemma valid_slots_zeroKeyWorld:
  "length (filter (\<lambda>c. validKey (processEnv zeroKeyWorld (env c))) configs) = 1"
  by (simp add: zeroKeyWorld_def configs_def exampleWorld_def validKey_exampleKey
      validKey_None isHexDigit_examples)

lemma admitted_crossmintWorld: "admitted crossmintWorld = [metamaskBuyer, crossmintSeller]"
  by (simp add: crossmintWorld_def admitted_def configs_def admit_def exampleWorld_def
      validKey_exampleKey validKey_None isHexDigit_examples exampleKey_inject
      take_42_exampleKey metamaskBuyer_def crossmintSeller_def)

lemma admitted_crossmintOffline: "admitted crossmintOffline = [metamaskBuyer, crossmintSeller]"
  by (simp add: crossmintOffline_def offlineWorld_def admitted_def configs_def admit_def
      exampleWorld_def validKey_exampleKey validKey_None isHexDigit_examples exampleKey_inject
      take_42_exampleKey metamaskBuyer_def crossmintSeller_def)

lemma example_wallet_fields:
  "wallet_id crossmintSeller = ''cm_seller''" "role crossmintSeller = ''seller''"
  "provider crossmintSeller = ''crossmint''" "name crossmintSeller = ''Crossmint Seller''"
  "privateKey crossmintSeller = exampleKey CHR ''a''"
  "publicAddress crossmintSeller = ''0x'' @ replicate 40 CHR ''a''"
  "wallet_id metamaskBuyer = ''catmm_buyer''" "role metamaskBuyer = ''buyer''"
  "provider metamaskBuyer = ''metamask''" "name metamaskBuyer = ''MetaMask Buyer''"
  "privateKey metamaskBuyer = exampleKey CHR ''B''"
  "publicAddress metamaskBuyer = ''0x'' @ replicate 40 CHR ''B''"
  by (simp_all add: crossmintSeller_def metamaskBuyer_def makeWallet_def configs_def)

lemma example_wallets_differ: "metamaskBuyer \<noteq> crossmintSeller"
proof
  assume "metamaskBuyer = crossmintSeller"
  then have "role metamaskBuyer = role crossmintSeller" by simp
  then show False by (simp add: example_wallet_fields)
qed

section \<open>The wallet that is current after the load\<close>

lemma currentWallet_loadWallets:
  "currentWallet (loadWallets W) = currentWallet (selectCurrent [] (admitted W) (length (admitted W)))"
  "lastActiveWalletId (loadWallets W) =
     lastActiveWalletId (selectCurrent [] (admitted W) (length (admitted W)))"
  by (simp_all add: loadWallets_def loadLoop_eq selectCurrent_def Let_def
      split: option.splits list.splits)

text \<open>
  C6. If the wallet \<open>catmm_seller\<close> was loaded it is the current wallet; otherwise, if a
  wallet was loaded, the current wallet is the first loaded seller, or the first loaded
  wallet when there is no seller; if no wallet was loaded there is no current wallet.
  Whenever a wallet is chosen, \<open>lastActiveWalletId\<close> is its id. The loaded wallets are the
  values of the registry, in load order.
\<close>

theorem default_selection:
  "(case find (\<lambda>w. wallet_id w = ''catmm_seller'') (getAllWallets (loadWallets W)) of
      Some priority \<Rightarrow>
        currentWallet (loadWallets W) = Some priority \<and>
        lastActiveWalletId (loadWallets W) = Some (wallet_id priority)
    | None \<Rightarrow>
        (case getAllWallets (loadWallets W) of
           [] \<Rightarrow> currentWallet (loadWallets W) = None
         | first # _ \<Rightarrow>
             (case filter (\<lambda>w. role w = ''seller'') (getAllWallets (loadWallets W)) of
                seller # _ \<Rightarrow>
                  currentWallet (loadWallets W) = Some seller \<and>
                  lastActiveWalletId (loadWallets W) = Some (wallet_id seller)
              | [] \<Rightarrow>
                  currentWallet (loadWallets W) = Some first \<and>
                  lastActiveWalletId (loadWallets W) = Some (wallet_id first))))"
  unfolding getAllWallets_loadWallets currentWallet_loadWallets
  by (simp add: selectCurrent_def Let_def split: option.splits list.splits)

theorem default_selection_witness:
  "find (\<lambda>w. wallet_id w = ''catmm_seller'') (getAllWallets (loadWallets crossmintWorld)) = None
   \<and> getAllWallets (loadWallets crossmintWorld) = [metamaskBuyer, crossmintSeller]
   \<and> currentWallet (loadWallets crossmintWorld) = Some crossmintSeller
   \<and> lastActiveWalletId (loadWallets crossmintWorld) = Some ''cm_seller''"
  using default_selection [of crossmintWorld]
  by (simp add: getAllWallets_loadWallets admitted_crossmintWorld example_wallet_fields)

section \<open>The invariant of the wallet manager\<close>

lemma registryOk_lookup:
  assumes "registryOk ws" and "w \<in> set (map_values ws)"
  shows "map_get ws (wallet_id w) = Some w"
proof -
  obtain k where kw: "(k, w) \<in> set ws"
    using assms(2) by (auto simp: map_values_def)
  have "wallet_id w = k"
    using assms(1) kw by (auto simp: registryOk_def list_all_iff)
  moreover have "map_of ws k = Some w"
    using assms(1) kw by (simp add: registryOk_def)
  ultimately show ?thesis
    by (simp add: map_get_def)
qed

lemma registryOk_get:
  assumes "registryOk ws" and "map_get ws i = Some w"
  shows "wallet_id w = i" and "w \<in> set (map_values ws)"
proof -
  have mem: "(i, w) \<in> set ws"
    using assms(2) by (simp add: map_get_def map_of_SomeD)
  show "wallet_id w = i"
    using assms(1) mem by (auto simp: registryOk_def list_all_iff)
  show "w \<in> set (map_values ws)"
    using mem by (force simp: map_values_def)
qed

lemma registryOk_loadWallets: "registryOk (wallets (loadWallets W))"
  using distinct_admitted [of W]
  by (simp add: registryOk_def wallets_loadWallets comp_def list_all_iff)

lemma map_values_loadWallets: "map_values (wallets (loadWallets W)) = admitted W"
  by (simp add: map_values_def wallets_loadWallets comp_def)

lemma config_ids_nonempty: "c \<in> set configs \<Longrightarrow> cfg_id c \<noteq> []"
  by (auto simp: configs_def)

lemma admitted_config:
  assumes "w \<in> set (admitted W)"
  shows "\<exists>c \<in> set configs. admit W c = Some w"
  using assms by (auto simp: admitted_def map_filter_def)

lemma admitted_id_nonempty: "w \<in> set (admitted W) \<Longrightarrow> wallet_id w \<noteq> []"
  using admitted_config admit_fields(1) config_ids_nonempty by metis

lemma selectCurrent_member:
  assumes "currentWallet (selectCurrent ws l n) = Some w"
  shows "w \<in> set l \<and> lastActiveWalletId (selectCurrent ws l n) = Some (wallet_id w)"
proof (cases "find (\<lambda>w. wallet_id w = ''catmm_seller'') l")
  case (Some pw)
  then have "pw \<in> set l"
    by (auto simp: find_Some_iff)
  then show ?thesis
    using assms Some by (simp add: selectCurrent_def)
next
  case None
  show ?thesis
  proof (cases "filter (\<lambda>w. role w = ''seller'') l")
    case Nil
    then show ?thesis
      using assms None by (auto simp: selectCurrent_def split: if_splits list.splits)
  next
    case (Cons x xs)
    then have "x \<in> set (filter (\<lambda>w. role w = ''seller'') l)"
      by simp
    then have "x \<in> set l"
      by simp
    then show ?thesis
      using assms None Cons by (auto simp: selectCurrent_def split: if_splits)
  qed
qed

lemma currentOk_loadWallets: "currentOk (loadWallets W)"
proof (cases "currentWallet (loadWallets W)")
  case None
  then show ?thesis by (simp add: currentOk_def)
next
  case (Some w)
  then have sel: "currentWallet (selectCurrent [] (admitted W) (length (admitted W))) = Some w"
    by (simp add: currentWallet_loadWallets)
  have mem: "w \<in> set (admitted W)"
    and last: "lastActiveWalletId (loadWallets W) = Some (wallet_id w)"
    using selectCurrent_member [OF sel] by (simp_all add: currentWallet_loadWallets)
  have "map_get (wallets (loadWallets W)) (wallet_id w) = Some w"
    using registryOk_lookup [OF registryOk_loadWallets] mem
    by (simp add: map_values_loadWallets)
  then show ?thesis
    using Some last by (simp add: currentOk_def)
qed

lemma wallets_applyCall: "wallets (applyCall m c) = wallets m"
  by (cases c)
    (simp_all add: switchWallet_def restoreLastActiveWallet_def split: option.splits)

lemma currentOk_applyCall:
  assumes "registryOk (wallets m)" and "currentOk m"
  shows "currentOk (applyCall m c)"
proof (cases c)
  case (SwitchWallet i)
  show ?thesis
  proof (cases "map_get (wallets m) i")
    case None
    then show ?thesis
      using assms(2) SwitchWallet by (simp add: switchWallet_def)
  next
    case (Some w)
    have "wallet_id w = i"
      using registryOk_get(1) [OF assms(1) Some] .
    then show ?thesis
      using Some SwitchWallet by (simp add: switchWallet_def currentOk_def)
  qed
next
  case RestoreLastActiveWallet
  show ?thesis
  proof (cases "lastActiveWalletId m")
    case None
    then show ?thesis
      using assms(2) RestoreLastActiveWallet by (simp add: restoreLastActiveWallet_def)
  next
    case (Some i)
    show ?thesis
    proof (cases "map_get (wallets m) i")
      case None
      then show ?thesis
        using assms(2) Some RestoreLastActiveWallet
        by (simp add: restoreLastActiveWallet_def)
    next
      case (Some w)
      have "wallet_id w = i"
        using registryOk_get(1) [OF assms(1) Some] .
      then show ?thesis
        using Some \<open>lastActiveWalletId m = Some i\<close> assms(2) RestoreLastActiveWallet
        by (cases "i \<noteq> [] \<and> map_has (wallets m) i")
          (simp_all add: restoreLastActiveWallet_def currentOk_def split: option.splits)
    qed
  qed
qed

lemma foldl_applyCall_invariant:
  assumes "registryOk (wallets m)" and "currentOk m"
  shows "wallets (foldl applyCall m calls) = wallets m \<and> currentOk (foldl applyCall m calls)"
  using assms
proof (induction calls arbitrary: m)
  case Nil
  then show ?case by simp
next
  case (Cons c calls)
  have ok: "registryOk (wallets (applyCall m c))"
    using Cons.prems(1) by (simp add: wallets_applyCall)
  have cur: "currentOk (applyCall m c)"
    using Cons.prems by (rule currentOk_applyCall)
  show ?case
    using Cons.IH [OF ok cur] by (simp add: wallets_applyCall)
qed

lemma managerAfter_invariant:
  "wallets (managerAfter W calls) = wallets (loadWallets W)"
  "currentOk (managerAfter W calls)"
  using foldl_applyCall_invariant [OF registryOk_loadWallets currentOk_loadWallets]
  by (simp_all add: managerAfter_def)

lemma restore_when_current:
  assumes reg: "wallets m = wallets (loadWallets W)" and ok: "currentOk m"
    and cur: "currentWallet m = Some w"
  shows "restoreLastActiveWallet m = (True, m)"
proof -
  have get: "map_get (wallets m) (wallet_id w) = Some w"
    and last: "lastActiveWalletId m = Some (wallet_id w)"
    using ok cur by (simp_all add: currentOk_def)
  have "w \<in> set (admitted W)"
    using registryOk_get(2) [OF registryOk_loadWallets] get reg
    by (simp add: map_values_loadWallets)
  then have "wallet_id w \<noteq> []"
    by (rule admitted_id_nonempty)
  then show ?thesis
    using get last cur
    by (simp add: restoreLastActiveWallet_def map_has_def map_get_def)
qed

text \<open>
  C9. After the load and any sequence of calls of \<open>switchWallet\<close> and
  \<open>restoreLastActiveWallet\<close>, the registry is the loaded one, and a current wallet is the
  entry of the registry under its own id, is listed by \<open>getAllWallets\<close>, and its id is
  \<open>lastActiveWalletId\<close>; then \<open>restoreLastActiveWallet\<close> returns true and changes
  nothing.
\<close>

theorem manager_invariant:
  "wallets (managerAfter W calls) = wallets (loadWallets W) \<and>
   (\<forall>w. getCurrentWallet (managerAfter W calls) = Some w \<longrightarrow>
      map_get (wallets (managerAfter W calls)) (wallet_id w) = Some w \<and>
      w \<in> set (getAllWallets (managerAfter W calls)) \<and>
      lastActiveWalletId (managerAfter W calls) = Some (wallet_id w) \<and>
      restoreLastActiveWallet (managerAfter W calls) = (True, managerAfter W calls))"
proof (intro conjI allI impI)
  show "wallets (managerAfter W calls) = wallets (loadWallets W)"
    by (rule managerAfter_invariant(1))
next
  fix w
  assume "getCurrentWallet (managerAfter W calls) = Some w"
  then have cur: "currentWallet (managerAfter W calls) = Some w"
    by (simp add: getCurrentWallet_def)
  show get: "map_get (wallets (managerAfter W calls)) (wallet_id w) = Some w"
    using managerAfter_invariant(2) [of W calls] cur by (simp add: currentOk_def)
  show "lastActiveWalletId (managerAfter W calls) = Some (wallet_id w)"
    using managerAfter_invariant(2) [of W calls] cur by (simp add: currentOk_def)
  show "w \<in> set (getAllWallets (managerAfter W calls))"
    using registryOk_get(2) [OF registryOk_loadWallets, of W "wallet_id w" w] get
    by (simp add: getAllWallets_def managerAfter_invariant(1))
  show "restoreLastActiveWallet (managerAfter W calls) = (True, managerAfter W calls)"
    using restore_when_current [OF managerAfter_invariant cur] .
qed

lemma loadWallets_crossmintWorld:
  "loadWallets crossmintWorld =
    \<lparr>wallets = [(''catmm_buyer'', metamaskBuyer), (''cm_seller'', crossmintSeller)],
     currentWallet = Some crossmintSeller, lastActiveWalletId = Some ''cm_seller''\<rparr>"
  by (simp add: loadWallets_def loadLoop_eq admitted_crossmintWorld selectCurrent_def
      example_wallet_fields)

lemma loadWallets_crossmintOffline:
  "loadWallets crossmintOffline =
    \<lparr>wallets = [(''catmm_buyer'', metamaskBuyer), (''cm_seller'', crossmintSeller)],
     currentWallet = Some crossmintSeller, lastActiveWalletId = Some ''cm_seller''\<rparr>"
  by (simp add: loadWallets_def loadLoop_eq admitted_crossmintOffline selectCurrent_def
      example_wallet_fields)

theorem manager_invariant_witness:
  "getCurrentWallet
     (managerAfter crossmintWorld [SwitchWallet ''catmm_buyer'', RestoreLastActiveWallet])
     = Some metamaskBuyer \<and>
   map_get (wallets
     (managerAfter crossmintWorld [SwitchWallet ''catmm_buyer'', RestoreLastActiveWallet]))
     ''catmm_buyer'' = Some metamaskBuyer \<and>
   lastActiveWalletId
     (managerAfter crossmintWorld [SwitchWallet ''catmm_buyer'', RestoreLastActiveWallet])
     = Some ''catmm_buyer'' \<and>
   fst (restoreLastActiveWallet
     (managerAfter crossmintWorld [SwitchWallet ''catmm_buyer'', RestoreLastActiveWallet]))"
proof -
  have cur: "getCurrentWallet
     (managerAfter crossmintWorld [SwitchWallet ''catmm_buyer'', RestoreLastActiveWallet])
     = Some metamaskBuyer"
    by (simp add: managerAfter_def loadWallets_crossmintWorld switchWallet_def
        restoreLastActiveWallet_def map_get_def map_has_def getCurrentWallet_def)
  show ?thesis
    using cur
      manager_invariant [of crossmintWorld
        "[SwitchWallet ''catmm_buyer'', RestoreLastActiveWallet]"]
    by (simp add: example_wallet_fields loadWallets_crossmintWorld map_get_def)
qed

section \<open>The size of the registry\<close>

lemma skipped_slot_absent:
  assumes c: "c \<in> set configs" and skipped: "admit W c = None"
  shows "map_get (wallets (loadWallets W)) (cfg_id c) = None"
proof (rule ccontr)
  assume "map_get (wallets (loadWallets W)) (cfg_id c) \<noteq> None"
  then obtain w where get: "map_get (wallets (loadWallets W)) (cfg_id c) = Some w"
    by blast
  have w: "w \<in> set (admitted W)" "wallet_id w = cfg_id c"
    using registryOk_get [OF registryOk_loadWallets get]
    by (simp_all add: map_values_loadWallets)
  obtain c' where c': "c' \<in> set configs" "admit W c' = Some w"
    using admitted_config [OF w(1)] by blast
  have "cfg_id c' = cfg_id c"
    using admit_fields(1) [OF c'(2)] w(2) by simp
  moreover have "inj_on cfg_id (set configs)"
    using distinct_configs by (simp add: distinct_map)
  ultimately have "c' = c"
    using c c'(1) by (auto dest: inj_onD)
  then show False
    using c'(2) skipped by simp
qed

text \<open>
  C5. The registry holds one wallet for each slot whose secret has the required format
  and is accepted by the key derivation; every other slot is left out, with no entry
  under its id, and the load always returns a manager. There are eight slots.
\<close>

theorem registry_size:
  "length (getAllWallets (loadWallets W)) =
     length (filter (\<lambda>c. validKey (processEnv W (env c)) \<and> derivable W c) configs)
   \<and> length configs = 8
   \<and> (\<forall>c \<in> set configs. \<not> (validKey (processEnv W (env c)) \<and> derivable W c) \<longrightarrow>
         map_get (wallets (loadWallets W)) (cfg_id c) = None)"
proof (intro conjI ballI impI)
  show "length (getAllWallets (loadWallets W)) =
     length (filter (\<lambda>c. validKey (processEnv W (env c)) \<and> derivable W c) configs)"
    by (simp add: getAllWallets_loadWallets length_admitted)
  show "length configs = 8"
    by (simp add: configs_def)
next
  fix c
  assume c: "c \<in> set configs" and "\<not> (validKey (processEnv W (env c)) \<and> derivable W c)"
  then have "admit W c = None"
    using admit_Some_iff [of W c] by (cases "admit W c") auto
  then show "map_get (wallets (loadWallets W)) (cfg_id c) = None"
    using c by (simp add: skipped_slot_absent)
qed

text \<open>
  The count of the slots whose secret has the required format is not the size of the
  registry: the key \<open>0\<close> has the format, the derivation throws on it, the exception is
  caught and the slot is left out.
\<close>

theorem registry_size_counterexample:
  "length (getAllWallets (loadWallets zeroKeyWorld)) \<noteq>
     length (filter (\<lambda>c. validKey (processEnv zeroKeyWorld (env c))) configs)"
  by (simp add: getAllWallets_loadWallets admitted_zeroKeyWorld valid_slots_zeroKeyWorld)

theorem registry_size_witness:
  "length (getAllWallets (loadWallets crossmintWorld)) = 2
   \<and> length (filter (\<lambda>c. validKey (processEnv crossmintWorld (env c))
        \<and> derivable crossmintWorld c) configs) = 2
   \<and> configs ! 0 \<in> set configs
   \<and> \<not> validKey (processEnv crossmintWorld (env (configs ! 0)))
   \<and> map_get (wallets (loadWallets crossmintWorld)) ''catmm_seller'' = None"
proof -
  have slot: "configs ! 0 \<in> set configs"
    by (simp add: configs_def)
  have invalid: "\<not> validKey (processEnv crossmintWorld (env (configs ! 0)))"
    by (simp add: configs_def crossmintWorld_def exampleWorld_def validKey_None)
  have "cfg_id (configs ! 0) = ''catmm_seller''"
    by (simp add: configs_def)
  then show ?thesis
    using registry_size [of crossmintWorld] slot invalid
    by (auto simp: getAllWallets_loadWallets admitted_crossmintWorld)
qed

section \<open>Restoring the last active wallet\<close>

text \<open>
  C7. \<open>restoreLastActiveWallet\<close> returns true and makes the wallet registered under
  \<open>lastActiveWalletId\<close> the current one exactly when \<open>lastActiveWalletId\<close> is set, not
  empty, and a key of the registry, whether or not a wallet is current; in every other
  case it returns false and changes nothing.
\<close>

theorem restoreLastActiveWallet_result:
  "restoreLastActiveWallet m =
    (if lastResolves m
     then (True, m\<lparr>currentWallet := map_get (wallets m) (the (lastActiveWalletId m))\<rparr>)
     else (False, m))"
  by (auto simp: restoreLastActiveWallet_def lastResolves_def map_has_def map_get_def
      split: option.splits)

text \<open>
  After the load of the example configuration a wallet is current, and
  \<open>restoreLastActiveWallet\<close> returns true.
\<close>

theorem restore_counterexample:
  "\<not> (fst (restoreLastActiveWallet (loadWallets crossmintWorld)) =
       (currentWallet (loadWallets crossmintWorld) = None \<and>
        lastResolves (loadWallets crossmintWorld)))"
  by (simp add: loadWallets_crossmintWorld restoreLastActiveWallet_def map_has_def
      map_get_def)

theorem restoreLastActiveWallet_witness:
  "lastResolves (loadWallets crossmintWorld) \<and>
   restoreLastActiveWallet (loadWallets crossmintWorld) = (True, loadWallets crossmintWorld)"
proof -
  have res: "lastResolves (loadWallets crossmintWorld)"
    by (simp add: loadWallets_crossmintWorld lastResolves_def map_has_def)
  show ?thesis
    using res restoreLastActiveWallet_result [of "loadWallets crossmintWorld"]
    by (simp add: loadWallets_crossmintWorld map_get_def)
qed

section \<open>The synchroniser\<close>

lemma walletManager_initializeGoatTools:
  "walletManager (snd (initializeGoatTools W force s)) = walletManager s"
  by (simp add: initializeGoatTools_def Let_def
      split: option.splits outcome.splits prod.splits bool.splits)

lemma registerGoatTools_registered:
  assumes "(''goat_'' @ tool) \<in> set registered" and "tool \<in> set tools"
  shows "\<not> fst (registerGoatTools registered tools)"
  using assms by (induction registered tools rule: registerGoatTools.induct) auto

lemma createWalletClientForWallet_admitted:
  assumes "w \<in> set (admitted W)"
  shows "createWalletClientForWallet W w = Returned (clientOf w)"
proof -
  obtain c where "admit W c = Some w"
    using admitted_config [OF assms] by blast
  then have "privateKeyToAccount W (privateKey w) = Returned (publicAddress w)"
    by (rule admit_fields(4))
  then show ?thesis
    by (simp add: createWalletClientForWallet_def clientOf_def)
qed

text \<open>What a construction does, once the client has been made.\<close>

lemma initializeGoatTools_construct:
  assumes "getCurrentWallet (walletManager s) = Some w"
    and "createWalletClientForWallet W w = Returned client"
    and "force \<or> goatTools s = None \<or> goatToolsLastWalletId s \<noteq> Some (wallet_id w)"
  shows "initializeGoatTools W force s =
    (case getOnChainTools W (length (onChainToolsCalls s)) client of
       Thrown e \<Rightarrow>
         (False, s\<lparr>onChainToolsCalls := onChainToolsCalls s @ [client],
                   goatTools := None, goatToolsLastWalletId := None\<rparr>)
     | Returned tools \<Rightarrow>
         if fst (registerGoatTools (registeredTools s) (listOfTools tools))
         then (True, s\<lparr>onChainToolsCalls := onChainToolsCalls s @ [client],
                        goatTools := Some tools,
                        goatToolsLastWalletId := Some (wallet_id w),
                        registeredTools :=
                          snd (registerGoatTools (registeredTools s) (listOfTools tools))\<rparr>)
         else (False, s\<lparr>onChainToolsCalls := onChainToolsCalls s @ [client],
                        goatTools := None, goatToolsLastWalletId := None,
                        registeredTools :=
                          snd (registerGoatTools (registeredTools s) (listOfTools tools))\<rparr>))"
  using assms
  by (auto simp: initializeGoatTools_def Let_def split: outcome.splits prod.splits bool.splits)

lemma initializeGoatTools_calls:
  assumes "getCurrentWallet (walletManager s) = Some w"
    and "createWalletClientForWallet W w = Returned client"
    and "force \<or> goatTools s = None \<or> goatToolsLastWalletId s \<noteq> Some (wallet_id w)"
  shows "onChainToolsCalls (snd (initializeGoatTools W force s)) = onChainToolsCalls s @ [client]"
    and "fst (initializeGoatTools W force s) = (goatTools (snd (initializeGoatTools W force s)) \<noteq> None)"
    and "goatTools (snd (initializeGoatTools W force s)) \<noteq> None \<Longrightarrow>
         goatToolsLastWalletId (snd (initializeGoatTools W force s)) = Some (wallet_id w)"
  unfolding initializeGoatTools_construct [OF assms]
  by (auto split: outcome.splits if_splits)

text \<open>
  Once a name of the tool list is registered, a forced construction calls
  \<open>getOnChainTools\<close> and then ends in the \<^verbatim>\<open>catch\<close> block: it returns false and
  leaves no tool set bound.
\<close>

lemma initializeGoatTools_registered_again:
  assumes "getCurrentWallet (walletManager s) = Some w"
    and "createWalletClientForWallet W w = Returned client"
    and "getOnChainTools W (length (onChainToolsCalls s)) client = Returned tools"
    and "(''goat_'' @ tool) \<in> set (registeredTools s)" and "tool \<in> set (listOfTools tools)"
  shows "initializeGoatTools W True s =
    (False, s\<lparr>onChainToolsCalls := onChainToolsCalls s @ [client],
              goatTools := None, goatToolsLastWalletId := None,
              registeredTools :=
                snd (registerGoatTools (registeredTools s) (listOfTools tools))\<rparr>)"
proof -
  have forced: "True \<or> goatTools s = None \<or> goatToolsLastWalletId s \<noteq> Some (wallet_id w)"
    by simp
  show ?thesis
    using registerGoatTools_registered [OF assms(4,5)]
    by (simp add: initializeGoatTools_construct [OF assms(1,2) forced] assms(3))
qed

text \<open>
  C2. Let \<open>w\<close> be the current wallet, a wallet of the loaded registry. If a tool set is
  bound, the bound id is the id of \<open>w\<close> and no reinitialisation is forced,
  \<open>initializeGoatTools\<close> returns true and leaves the state, with the record of the
  constructions, as it is. Otherwise it calls \<open>getOnChainTools\<close> once, with the client
  made from the key of \<open>w\<close>, and leaves the wallet manager as it is; if the construction
  throws, it returns false with both \<open>goatTools\<close> and \<open>goatToolsLastWalletId\<close> reset.
\<close>

theorem initializeGoatTools_current:
  assumes "getCurrentWallet (walletManager s) = Some w"
    and "w \<in> set (getAllWallets (loadWallets W))"
  shows
    "if \<not> force \<and> goatTools s \<noteq> None \<and> goatToolsLastWalletId s = Some (wallet_id w)
     then initializeGoatTools W force s = (True, s)
     else onChainToolsCalls (snd (initializeGoatTools W force s)) =
            onChainToolsCalls s @ [clientOf w] \<and>
          signingKey (clientOf w) = privateKey w \<and>
          walletManager (snd (initializeGoatTools W force s)) = walletManager s \<and>
          (\<forall>e. getOnChainTools W (length (onChainToolsCalls s)) (clientOf w) = Thrown e \<longrightarrow>
             initializeGoatTools W force s =
               (False, s\<lparr>onChainToolsCalls := onChainToolsCalls s @ [clientOf w],
                         goatTools := None, goatToolsLastWalletId := None\<rparr>))"
proof (cases "\<not> force \<and> goatTools s \<noteq> None \<and> goatToolsLastWalletId s = Some (wallet_id w)")
  case True
  then show ?thesis
    using assms(1) by (simp add: initializeGoatTools_def)
next
  case False
  then have need: "force \<or> goatTools s = None \<or> goatToolsLastWalletId s \<noteq> Some (wallet_id w)"
    by blast
  have client: "createWalletClientForWallet W w = Returned (clientOf w)"
    using assms(2) by (simp add: getAllWallets_loadWallets createWalletClientForWallet_admitted)
  have calls: "onChainToolsCalls (snd (initializeGoatTools W force s)) =
      onChainToolsCalls s @ [clientOf w]"
    using initializeGoatTools_calls(1) [OF assms(1) client need] .
  have thrown: "\<forall>e. getOnChainTools W (length (onChainToolsCalls s)) (clientOf w) = Thrown e \<longrightarrow>
      initializeGoatTools W force s =
        (False, s\<lparr>onChainToolsCalls := onChainToolsCalls s @ [clientOf w],
                  goatTools := None, goatToolsLastWalletId := None\<rparr>)"
    by (simp add: initializeGoatTools_construct [OF assms(1) client need])
  show ?thesis
    unfolding if_not_P [OF False]
    using calls thrown
    by (simp add: walletManager_initializeGoatTools clientOf_def)
qed

lemma getOnChainTools_examples:
  "getOnChainTools crossmintWorld n c = Returned (GoatTools [''get_address''])"
  "getOnChainTools crossmintLate 0 c = Thrown ''network unreachable''"
  "getOnChainTools crossmintLate (Suc n) c = Returned (GoatTools [''get_address''])"
  "getOnChainTools crossmintOffline n c = Thrown ''network unreachable''"
  by (simp_all add: crossmintWorld_def crossmintLate_def crossmintOffline_def offlineWorld_def
      exampleWorld_def)

lemma goat_name_not_static: "''goat_get_address'' \<notin> set staticTools"
  by (simp add: staticTools_def)

lemma registerGoatTools_examples:
  "registerGoatTools staticTools [''get_address''] =
     (True, staticTools @ [''goat_get_address''])"
  "registerGoatTools (staticTools @ [''goat_get_address'']) [''get_address''] =
     (False, staticTools @ [''goat_get_address''])"
  by (simp_all add: goat_name_not_static)

lemma admitted_crossmintLate: "admitted crossmintLate = [metamaskBuyer, crossmintSeller]"
proof -
  have "admit crossmintLate = admit crossmintWorld"
    by (rule ext) (simp add: admit_def crossmintLate_def split: outcome.splits)
  then have "admitted crossmintLate = admitted crossmintWorld"
    by (simp add: admitted_def)
  then show ?thesis
    by (simp add: admitted_crossmintWorld)
qed


lemma crossmintSeller_loaded:
  "crossmintSeller \<in> set (getAllWallets (loadWallets crossmintWorld))"
  "crossmintSeller \<in> set (getAllWallets (loadWallets crossmintOffline))"
  "crossmintSeller \<in> set (admitted crossmintWorld)"
  "crossmintSeller \<in> set (admitted crossmintOffline)"
  "crossmintSeller \<in> set (admitted crossmintLate)"
  by (simp_all add: getAllWallets_loadWallets admitted_crossmintWorld admitted_crossmintOffline
      admitted_crossmintLate)

lemma initialState_crossmintWorld:
  "initialState crossmintWorld =
    \<lparr>walletManager = loadWallets crossmintWorld,
     goatTools = Some (GoatTools [''get_address'']),
     goatToolsLastWalletId = Some ''cm_seller'',
     registeredTools = staticTools @ [''goat_get_address''],
     onChainToolsCalls = [clientOf crossmintSeller]\<rparr>"
proof -
  have cur: "getCurrentWallet (walletManager
      \<lparr>walletManager = loadWallets crossmintWorld, goatTools = None,
       goatToolsLastWalletId = None, registeredTools = staticTools,
       onChainToolsCalls = []\<rparr>) = Some crossmintSeller"
    by (simp add: getCurrentWallet_def loadWallets_crossmintWorld)
  show ?thesis
    unfolding initialState_def
    by (subst initializeGoatTools_construct
        [OF cur createWalletClientForWallet_admitted [OF crossmintSeller_loaded(3)]])
      (simp_all add: getOnChainTools_examples goat_name_not_static example_wallet_fields)
qed

lemma initialState_crossmintOffline:
  "initialState crossmintOffline =
    \<lparr>walletManager = loadWallets crossmintOffline,
     goatTools = None, goatToolsLastWalletId = None,
     registeredTools = staticTools,
     onChainToolsCalls = [clientOf crossmintSeller]\<rparr>"
proof -
  have cur: "getCurrentWallet (walletManager
      \<lparr>walletManager = loadWallets crossmintOffline, goatTools = None,
       goatToolsLastWalletId = None, registeredTools = staticTools,
       onChainToolsCalls = []\<rparr>) = Some crossmintSeller"
    by (simp add: getCurrentWallet_def loadWallets_crossmintOffline)
  show ?thesis
    unfolding initialState_def
    by (subst initializeGoatTools_construct
        [OF cur createWalletClientForWallet_admitted [OF crossmintSeller_loaded(4)]])
      (simp_all add: getOnChainTools_examples example_wallet_fields)
qed


theorem initializeGoatTools_current_witness:
  "getCurrentWallet (walletManager (initialState crossmintWorld)) = Some crossmintSeller \<and>
   initializeGoatTools crossmintWorld False (initialState crossmintWorld) =
     (True, initialState crossmintWorld) \<and>
   getCurrentWallet (walletManager (initialState crossmintOffline)) = Some crossmintSeller \<and>
   initializeGoatTools crossmintOffline False (initialState crossmintOffline) =
     (False, (initialState crossmintOffline)
        \<lparr>onChainToolsCalls := [clientOf crossmintSeller, clientOf crossmintSeller]\<rparr>)"
proof -
  have on: "getCurrentWallet (walletManager (initialState crossmintWorld)) = Some crossmintSeller"
    by (simp add: initialState_crossmintWorld getCurrentWallet_def loadWallets_crossmintWorld)
  have off: "getCurrentWallet (walletManager (initialState crossmintOffline)) = Some crossmintSeller"
    by (simp add: initialState_crossmintOffline getCurrentWallet_def loadWallets_crossmintOffline)
  show ?thesis
    using on off
      initializeGoatTools_current [OF on crossmintSeller_loaded(1), of False]
      initializeGoatTools_current [OF off crossmintSeller_loaded(2), of False]
    by (simp add: initialState_crossmintWorld initialState_crossmintOffline
        example_wallet_fields getOnChainTools_examples)
qed

text \<open>
  C10. Without a current wallet \<open>initializeGoatTools\<close> returns false and resets both
  \<open>goatTools\<close> and \<open>goatToolsLastWalletId\<close>, whatever was bound before and whether or
  not a reinitialisation is forced; nothing else changes.
\<close>

theorem initializeGoatTools_no_wallet:
  assumes "getCurrentWallet (walletManager s) = None"
  shows "initializeGoatTools W force s =
    (False, s\<lparr>goatTools := None, goatToolsLastWalletId := None\<rparr>)"
  using assms by (simp add: initializeGoatTools_def)

theorem initializeGoatTools_no_wallet_witness:
  "getCurrentWallet (walletManager staleState) = None \<and>
   goatTools staleState \<noteq> None \<and>
   fst (initializeGoatTools crossmintWorld False staleState) = False \<and>
   goatTools (snd (initializeGoatTools crossmintWorld False staleState)) = None \<and>
   goatToolsLastWalletId (snd (initializeGoatTools crossmintWorld False staleState)) = None"
proof -
  have none: "getCurrentWallet (walletManager staleState) = None"
    by (simp add: staleState_def getCurrentWallet_def)
  show ?thesis
    using none initializeGoatTools_no_wallet [OF none, of crossmintWorld False]
    by (simp add: staleState_def)
qed

section \<open>Switching to a role\<close>

lemma config_provider_cases:
  assumes "c \<in> set configs"
    and "cfg_provider c \<noteq> ''metamask''" and "cfg_provider c \<noteq> ''crossmint''"
    and "cfg_provider c \<noteq> ''civic''"
  shows "cfg_role c = ''legacy''"
  using assms by (auto simp: configs_def)

lemma config_legacy_id:
  assumes "c \<in> set configs" and "cfg_role c = ''legacy''"
  shows "cfg_id c = ''legacy_main''"
  using assms by (auto simp: configs_def)

lemma admitted_same_id:
  assumes "x \<in> set (admitted W)" and "y \<in> set (admitted W)" and "wallet_id x = wallet_id y"
  shows "x = y"
proof -
  have "inj_on wallet_id (set (admitted W))"
    using distinct_admitted [of W] by (simp add: distinct_map)
  then show ?thesis
    using assms by (auto dest: inj_onD)
qed

lemma admitted_legacy_id:
  assumes "x \<in> set (admitted W)" and "role x = ''legacy''"
  shows "wallet_id x = ''legacy_main''"
proof -
  obtain c where c: "c \<in> set configs" "admit W c = Some x"
    using admitted_config [OF assms(1)] by blast
  have "cfg_role c = ''legacy''"
    using admit_fields(2) [OF c(2)] assms(2) by simp
  then have "cfg_id c = ''legacy_main''"
    using c(1) by (simp add: config_legacy_id)
  then show ?thesis
    using admit_fields(1) [OF c(2)] by simp
qed

lemma admitted_other_provider:
  assumes "x \<in> set (admitted W)"
    and "provider x \<noteq> ''metamask''" and "provider x \<noteq> ''crossmint''"
    and "provider x \<noteq> ''civic''"
  shows "role x = ''legacy''"
proof -
  obtain c where c: "c \<in> set configs" "admit W c = Some x"
    using admitted_config [OF assms(1)] by blast
  have "cfg_role c = ''legacy''"
    using config_provider_cases [OF c(1)] admit_fields(3) [OF c(2)] assms(2-4) by simp
  then show ?thesis
    using admit_fields(2) [OF c(2)] by simp
qed

lemma hd_filter_member:
  assumes "filter P xs \<noteq> []"
  shows "hd (filter P xs) \<in> set xs \<and> P (hd (filter P xs))"
proof -
  have "hd (filter P xs) \<in> set (filter P xs)"
    using assms by (rule hd_in_set)
  then show ?thesis by simp
qed

text \<open>
  A provider that the handler does not look up can match only the legacy wallet, which
  is then also the first wallet of its role.
\<close>

lemma exact_match_other_provider:
  assumes found: "find (\<lambda>w. role w = r \<and> provider w = p) (admitted W) = Some x"
    and other: "p \<noteq> ''metamask''" "p \<noteq> ''crossmint''" "p \<noteq> ''civic''"
  shows "hd (filter (\<lambda>w. role w = r) (admitted W)) = x"
proof -
  have x: "x \<in> set (admitted W)" "role x = r" "provider x = p"
    using found by (auto simp: find_Some_iff)
  have legacy: "r = ''legacy''"
    using admitted_other_provider [OF x(1)] x(2,3) other by simp
  have nonempty: "filter (\<lambda>w. role w = r) (admitted W) \<noteq> []"
    using x(1,2) by (auto simp: filter_empty_conv)
  have y: "hd (filter (\<lambda>w. role w = r) (admitted W)) \<in> set (admitted W)"
    "role (hd (filter (\<lambda>w. role w = r) (admitted W))) = r"
    using hd_filter_member [OF nonempty] by simp_all
  have "wallet_id (hd (filter (\<lambda>w. role w = r) (admitted W))) = wallet_id x"
    using admitted_legacy_id [OF y(1)] admitted_legacy_id [OF x(1)] y(2) x(2) legacy by simp
  then show ?thesis
    using admitted_same_id [OF y(1) x(1)] by simp
qed

lemma specTarget_facts:
  assumes reg: "wallets m = wallets (loadWallets W)"
    and some: "getWalletsByRole m r \<noteq> []"
  shows "specTarget m r p \<in> set (admitted W)"
    and "role (specTarget m r p) = r"
    and "(provider (specTarget m r p) = p) = (getWalletByRoleAndProvider m r p \<noteq> None)"
proof -
  have vals: "map_values (wallets m) = admitted W"
    using reg by (simp add: map_values_loadWallets)
  have nonempty: "filter (\<lambda>w. role w = r) (admitted W) \<noteq> []"
    using some by (simp add: getWalletsByRole_def vals)
  show "specTarget m r p \<in> set (admitted W)"
    using hd_filter_member [OF nonempty]
    by (auto simp: specTarget_def getWalletByRoleAndProvider_def getWalletsByRole_def vals
        find_Some_iff split: option.splits)
  show "role (specTarget m r p) = r"
    using hd_filter_member [OF nonempty]
    by (auto simp: specTarget_def getWalletByRoleAndProvider_def getWalletsByRole_def vals
        find_Some_iff split: option.splits)
  show "(provider (specTarget m r p) = p) = (getWalletByRoleAndProvider m r p \<noteq> None)"
  proof (cases "find (\<lambda>w. role w = r \<and> provider w = p) (admitted W)")
    case None
    have "\<not> (role (hd (filter (\<lambda>w. role w = r) (admitted W))) = r \<and>
        provider (hd (filter (\<lambda>w. role w = r) (admitted W))) = p)"
      using None hd_filter_member [OF nonempty] unfolding find_None_iff by blast
    then show ?thesis
      using None hd_filter_member [OF nonempty]
      by (simp add: specTarget_def getWalletByRoleAndProvider_def getWalletsByRole_def vals)
  next
    case (Some x)
    have "provider x = p"
      using Some by (auto simp: find_Some_iff)
    then show ?thesis
      using Some by (simp add: specTarget_def getWalletByRoleAndProvider_def vals)
  qed
qed

text \<open>The wallet that the handler picks is the one that the specification selects.\<close>

lemma handler_target:
  assumes reg: "wallets m = wallets (loadWallets W)"
    and some: "getWalletsByRole m r \<noteq> []"
  shows "(case (if p = ''metamask'' then getWalletByRoleAndProvider m r ''metamask''
               else if p = ''crossmint'' then getWalletByRoleAndProvider m r ''crossmint''
               else if p = ''civic'' then getWalletByRoleAndProvider m r ''civic''
               else None) of
            Some t \<Rightarrow> Some t
          | None \<Rightarrow> (case getWalletsByRole m r of [] \<Rightarrow> None | t # _ \<Rightarrow> Some t))
         = Some (specTarget m r p)"
proof -
  have vals: "map_values (wallets m) = admitted W"
    using reg by (simp add: map_values_loadWallets)
  have fallback: "(case getWalletsByRole m r of [] \<Rightarrow> None | t # _ \<Rightarrow> Some t)
      = Some (hd (getWalletsByRole m r))"
    using some by (cases "getWalletsByRole m r") simp_all
  show ?thesis
  proof (cases "p = ''metamask'' \<or> p = ''crossmint'' \<or> p = ''civic''")
    case True
    then have "(if p = ''metamask'' then getWalletByRoleAndProvider m r ''metamask''
               else if p = ''crossmint'' then getWalletByRoleAndProvider m r ''crossmint''
               else if p = ''civic'' then getWalletByRoleAndProvider m r ''civic''
               else None) = getWalletByRoleAndProvider m r p"
      by auto
    then show ?thesis
      using fallback by (simp add: specTarget_def split: option.splits)
  next
    case False
    then have other: "p \<noteq> ''metamask''" "p \<noteq> ''crossmint''" "p \<noteq> ''civic''"
      by simp_all
    have "specTarget m r p = hd (getWalletsByRole m r)"
    proof (cases "find (\<lambda>w. role w = r \<and> provider w = p) (admitted W)")
      case None
      then show ?thesis
        by (simp add: specTarget_def getWalletByRoleAndProvider_def vals)
    next
      case (Some x)
      then show ?thesis
        using exact_match_other_provider [OF Some other]
        by (simp add: specTarget_def getWalletByRoleAndProvider_def getWalletsByRole_def vals)
    qed
    then show ?thesis
      using other fallback by simp
  qed
qed

lemma switchWallet_loaded:
  assumes reg: "wallets m = wallets (loadWallets W)" and t: "t \<in> set (admitted W)"
  shows "switchWallet (wallet_id t) m =
    (True, m\<lparr>currentWallet := Some t, lastActiveWalletId := Some (wallet_id t)\<rparr>)"
proof -
  have "map_get (wallets m) (wallet_id t) = Some t"
    using registryOk_lookup [OF registryOk_loadWallets, of t W] t reg
    by (simp add: map_values_loadWallets)
  then show ?thesis
    by (simp add: switchWallet_def)
qed

text \<open>The state in which the handler calls \<open>initializeGoatTools(true)\<close>.\<close>

lemma switch_to_role_success:
  assumes reg: "wallets (walletManager s) = wallets (loadWallets W)"
    and some: "getWalletsByRole (walletManager s) r \<noteq> []"
  shows "switch_to_role r instruction W p s =
    (SwitchSuccess
       (''Switched to '' @ r @ '' wallet'' @
          (if provider (specTarget (walletManager s) r p) \<noteq> p
           then '' ('' @ p @ '' not available, using '' @
                  provider (specTarget (walletManager s) r p) @ '')''
           else []))
       (walletInfo (specTarget (walletManager s) r p))
       (fst (initializeGoatTools W True
          (s\<lparr>walletManager := (walletManager s)
              \<lparr>currentWallet := Some (specTarget (walletManager s) r p),
               lastActiveWalletId := Some (wallet_id (specTarget (walletManager s) r p))\<rparr>\<rparr>)))
       (fst (initializeGoatTools W True
          (s\<lparr>walletManager := (walletManager s)
              \<lparr>currentWallet := Some (specTarget (walletManager s) r p),
               lastActiveWalletId := Some (wallet_id (specTarget (walletManager s) r p))\<rparr>\<rparr>))),
     snd (initializeGoatTools W True
          (s\<lparr>walletManager := (walletManager s)
              \<lparr>currentWallet := Some (specTarget (walletManager s) r p),
               lastActiveWalletId := Some (wallet_id (specTarget (walletManager s) r p))\<rparr>\<rparr>)))"
  unfolding switch_to_role_def Let_def handler_target [OF reg some]
  by (simp add: switchWallet_loaded [OF reg specTarget_facts(1) [OF reg some]]
      split: prod.splits)

lemma switch_to_role_state:
  assumes reg: "wallets (walletManager s) = wallets (loadWallets W)"
    and some: "getWalletsByRole (walletManager s) r \<noteq> []"
  shows "walletManager (snd (switch_to_role r instruction W p s)) =
      (walletManager s)
        \<lparr>currentWallet := Some (specTarget (walletManager s) r p),
         lastActiveWalletId := Some (wallet_id (specTarget (walletManager s) r p))\<rparr>"
    and "onChainToolsCalls (snd (switch_to_role r instruction W p s)) =
      onChainToolsCalls s @ [clientOf (specTarget (walletManager s) r p)]"
    and "goatTools (snd (switch_to_role r instruction W p s)) \<noteq> None \<Longrightarrow>
      goatToolsLastWalletId (snd (switch_to_role r instruction W p s)) =
        Some (wallet_id (specTarget (walletManager s) r p))"
proof -
  let ?t = "specTarget (walletManager s) r p"
  let ?s1 = "s\<lparr>walletManager := (walletManager s)
      \<lparr>currentWallet := Some ?t, lastActiveWalletId := Some (wallet_id ?t)\<rparr>\<rparr>"
  have snd_eq: "snd (switch_to_role r instruction W p s) = snd (initializeGoatTools W True ?s1)"
    by (simp add: switch_to_role_success [OF reg some])
  have cur: "getCurrentWallet (walletManager ?s1) = Some ?t"
    by (simp add: getCurrentWallet_def)
  have client: "createWalletClientForWallet W ?t = Returned (clientOf ?t)"
    using specTarget_facts(1) [OF reg some] by (rule createWalletClientForWallet_admitted)
  have forced: "True \<or> goatTools ?s1 = None \<or> goatToolsLastWalletId ?s1 \<noteq> Some (wallet_id ?t)"
    by simp
  show "walletManager (snd (switch_to_role r instruction W p s)) =
      (walletManager s)\<lparr>currentWallet := Some ?t, lastActiveWalletId := Some (wallet_id ?t)\<rparr>"
    by (simp add: snd_eq walletManager_initializeGoatTools)
  show "onChainToolsCalls (snd (switch_to_role r instruction W p s)) =
      onChainToolsCalls s @ [clientOf ?t]"
    using initializeGoatTools_calls(1) [OF cur client forced] by (simp add: snd_eq)
  show "goatTools (snd (switch_to_role r instruction W p s)) \<noteq> None \<Longrightarrow>
      goatToolsLastWalletId (snd (switch_to_role r instruction W p s)) = Some (wallet_id ?t)"
    using initializeGoatTools_calls(3) [OF cur client forced] by (simp add: snd_eq)
qed

text \<open>
  C1. Let the registry be the loaded one and hold a wallet of role \<open>r\<close>. Then the switch
  to role \<open>r\<close> with preferred provider \<open>p\<close> replies with success for the wallet that
  \<open>specTarget\<close> names: the exact match of \<open>getWalletByRoleAndProvider\<close> when there is one,
  else the first wallet of the role. That wallet becomes the current wallet and its id
  \<open>lastActiveWalletId\<close>, so that \<open>getCurrentWallet\<close> returns a wallet of role \<open>r\<close>, of
  provider \<open>p\<close> exactly when an exact match exists; and the message is the plain one
  exactly when the provider of the wallet is \<open>p\<close>. The handlers
  \<open>switch_to_seller\<close> and \<open>switch_to_buyer\<close> are \<open>switch_to_role\<close> for their role.
\<close>

theorem switch_to_role_selects:
  assumes "wallets (walletManager s) = wallets (loadWallets W)"
    and "getWalletsByRole (walletManager s) r \<noteq> []"
  shows
    "(\<exists>message ok.
        fst (switch_to_role r instruction W p s) =
          SwitchSuccess message (walletInfo (specTarget (walletManager s) r p)) ok ok \<and>
        (message = ''Switched to '' @ r @ '' wallet'') =
          (provider (specTarget (walletManager s) r p) = p)) \<and>
     currentWallet (walletManager (snd (switch_to_role r instruction W p s))) =
       Some (specTarget (walletManager s) r p) \<and>
     lastActiveWalletId (walletManager (snd (switch_to_role r instruction W p s))) =
       Some (wallet_id (specTarget (walletManager s) r p)) \<and>
     getCurrentWallet (walletManager (snd (switch_to_role r instruction W p s))) =
       Some (specTarget (walletManager s) r p) \<and>
     specTarget (walletManager s) r p \<in> set (getAllWallets (walletManager s)) \<and>
     role (specTarget (walletManager s) r p) = r \<and>
     (provider (specTarget (walletManager s) r p) = p) =
       (getWalletByRoleAndProvider (walletManager s) r p \<noteq> None)"
proof -
  have reply: "\<exists>message ok.
        fst (switch_to_role r instruction W p s) =
          SwitchSuccess message (walletInfo (specTarget (walletManager s) r p)) ok ok \<and>
        (message = ''Switched to '' @ r @ '' wallet'') =
          (provider (specTarget (walletManager s) r p) = p)"
    by (simp add: switch_to_role_success [OF assms])
  have listed: "specTarget (walletManager s) r p \<in> set (getAllWallets (walletManager s))"
    using specTarget_facts(1) [OF assms] assms(1)
    by (simp add: getAllWallets_def map_values_loadWallets)
  show ?thesis
    using reply listed specTarget_facts(2,3) [OF assms]
    by (simp add: switch_to_role_state(1) [OF assms] getCurrentWallet_def)
qed

lemma privateKeyToAccount_examples:
  "privateKeyToAccount crossmintWorld (exampleKey CHR ''a'') = Returned (''0x'' @ replicate 40 CHR ''a'')"
  "privateKeyToAccount crossmintWorld (exampleKey CHR ''B'') = Returned (''0x'' @ replicate 40 CHR ''B'')"
  "privateKeyToAccount crossmintLate (exampleKey CHR ''a'') = Returned (''0x'' @ replicate 40 CHR ''a'')"
  by (simp_all add: crossmintWorld_def crossmintLate_def exampleWorld_def exampleKey_inject
      take_42_exampleKey)

text \<open>
  In \<open>crossmintWorld\<close> the start registers \<open>goat_get_address\<close>. The construction of the
  switch then throws in the registration, so the reply reports that the tools were not
  reinitialised, and no tool set is bound afterwards.
\<close>

lemma switch_crossmintWorld:
  "switch_to_seller crossmintWorld arg (initialState crossmintWorld) =
    (SwitchSuccess
       (if arg = Some ''crossmint'' then ''Switched to seller wallet''
        else ''Switched to seller wallet ('' @ (case arg of None \<Rightarrow> ''metamask'' | Some p \<Rightarrow> p)
               @ '' not available, using crossmint)'')
       (walletInfo crossmintSeller) False False,
     (initialState crossmintWorld)
       \<lparr>goatTools := None, goatToolsLastWalletId := None,
        onChainToolsCalls := [clientOf crossmintSeller, clientOf crossmintSeller]\<rparr>)"
  by (cases arg)
    (simp_all add: switch_to_seller_def switch_to_role_def initialState_crossmintWorld
      loadWallets_crossmintWorld getWalletByRoleAndProvider_def getWalletsByRole_def
      map_values_def example_wallet_fields switchWallet_def map_get_def
      initializeGoatTools_def getCurrentWallet_def createWalletClientForWallet_def
      privateKeyToAccount_examples getOnChainTools_examples clientOf_def)


theorem switch_to_role_selects_witness:
  "getWalletsByRole (walletManager (initialState crossmintWorld)) ''seller'' = [crossmintSeller] \<and>
   getWalletByRoleAndProvider (walletManager (initialState crossmintWorld)) ''seller''
     ''metamask'' = None \<and>
   fst (switch_to_role ''seller'' sellerInstruction crossmintWorld ''metamask''
         (initialState crossmintWorld)) =
     SwitchSuccess ''Switched to seller wallet (metamask not available, using crossmint)''
       (walletInfo crossmintSeller) False False \<and>
   getCurrentWallet (walletManager
     (snd (switch_to_role ''seller'' sellerInstruction crossmintWorld ''metamask''
            (initialState crossmintWorld)))) = Some crossmintSeller"
proof -
  have reg: "wallets (walletManager (initialState crossmintWorld)) =
      wallets (loadWallets crossmintWorld)"
    by (simp add: initialState_crossmintWorld)
  have sellers: "getWalletsByRole (walletManager (initialState crossmintWorld)) ''seller'' =
      [crossmintSeller]"
    by (simp add: initialState_crossmintWorld loadWallets_crossmintWorld getWalletsByRole_def
        map_values_def example_wallet_fields)
  have some: "getWalletsByRole (walletManager (initialState crossmintWorld)) ''seller'' \<noteq> []"
    by (simp add: sellers)
  have exact: "getWalletByRoleAndProvider (walletManager (initialState crossmintWorld))
      ''seller'' ''metamask'' = None"
    by (simp add: initialState_crossmintWorld loadWallets_crossmintWorld
        getWalletByRoleAndProvider_def map_values_def example_wallet_fields)
  have target: "specTarget (walletManager (initialState crossmintWorld)) ''seller'' ''metamask''
      = crossmintSeller"
    by (simp add: specTarget_def exact sellers)
  show ?thesis
    using switch_to_role_selects [OF reg some, of sellerInstruction "''metamask''"]
      switch_crossmintWorld [of None]
    by (simp add: sellers exact target switch_to_seller_def)
qed

section \<open>Constructions of the tool set around a switch\<close>




section \<open>Switching to a role without wallets\<close>





section \<open>The tools without a current wallet\<close>

lemma restoreLastActiveWallet_failed:
  assumes "currentWallet (snd (restoreLastActiveWallet m)) = None"
  shows "snd (restoreLastActiveWallet m) = m"
  using assms
  by (auto simp: restoreLastActiveWallet_def split: option.splits if_splits)

lemma restoreIfNoCurrent_unchanged:
  assumes "getCurrentWallet (walletManager (restoreIfNoCurrent s)) = None"
  shows "restoreIfNoCurrent s = s"
proof (cases "getCurrentWallet (walletManager s) = None")
  case True
  have "currentWallet (snd (restoreLastActiveWallet (walletManager s))) = None"
    using assms True by (simp add: restoreIfNoCurrent_def getCurrentWallet_def)
  then have "snd (restoreLastActiveWallet (walletManager s)) = walletManager s"
    by (rule restoreLastActiveWallet_failed)
  then show ?thesis
    using True by (simp add: restoreIfNoCurrent_def)
next
  case False
  then show ?thesis
    by (auto simp: restoreIfNoCurrent_def)
qed

lemma restoreIfNoCurrent_idem: "restoreIfNoCurrent (restoreIfNoCurrent s) = restoreIfNoCurrent s"
proof (cases "getCurrentWallet (walletManager (restoreIfNoCurrent s)) = None")
  case True
  then show ?thesis
    by (simp add: restoreIfNoCurrent_unchanged)
next
  case False
  then show ?thesis
    by (auto simp: restoreIfNoCurrent_def [of "restoreIfNoCurrent s"])
qed

lemma walletOperation_restored:
  "walletOperation W tool instruction (restoreIfNoCurrent s) = walletOperation W tool instruction s"
  by (simp add: walletOperation_def restoreIfNoCurrent_idem)

lemma tryBlock_restored: "tryBlock W tool (restoreIfNoCurrent s) = tryBlock W tool s"
  by (cases tool) (simp_all add: restoreIfNoCurrent_idem walletOperation_restored)

lemma callTool_restored: "callTool W tool (restoreIfNoCurrent s) = callTool W tool s"
  by (simp add: callTool_def tryBlock_restored)

lemma callTool_returns: "\<exists>reply s'. callTool W tool s = (Returned reply, s')"
proof (cases "tryBlock W tool s")
  case (Pair result s')
  then show ?thesis
    by (cases result) (simp_all add: callTool_def)
qed

lemma instruction_mentions_switch:
  "sublist ''switch_to_seller'' (''Use switch_to_seller'' @ rest)"
  "sublist ''switch_to_seller'' (front @ ''Then use switch_to_seller'' @ rest)"
proof -
  have "''Use switch_to_seller'' @ rest = ''Use '' @ ''switch_to_seller'' @ rest"
    by simp
  then show "sublist ''switch_to_seller'' (''Use switch_to_seller'' @ rest)"
    by (simp only: sublist_appendI)
  have "front @ ''Then use switch_to_seller'' @ rest =
      (front @ ''Then use '') @ ''switch_to_seller'' @ rest"
    by simp
  then show "sublist ''switch_to_seller'' (front @ ''Then use switch_to_seller'' @ rest)"
    by (simp only: sublist_appendI)
qed

lemma instructions_mention_switch:
  "sublist ''switch_to_seller'' ''Use switch_to_seller or switch_to_buyer to activate a wallet''"
  "sublist ''switch_to_seller''
     ''Use switch_to_seller (for minting) to activate the appropriate wallet''"
  "sublist ''switch_to_seller'' ''Use switch_to_seller to activate a wallet''"
  "sublist ''switch_to_seller''
     ''Use switch_to_seller (for minting) or switch_to_buyer (for purchasing) to activate the appropriate wallet''"
  "sublist ''switch_to_seller''
     (concat
       [''Set role-based wallet environment variables:'',
        ''- CAT_MM_SELLER_WALLET_PRIVATE_KEY for MetaMask seller operations'',
        ''- CAT_MM_BUYER_WALLET_PRIVATE_KEY for MetaMask buyer operations'',
        ''- CM_SELLER_WALLET_PRIVATE_KEY for Crossmint seller operations'',
        ''- CVC_BUYER_WALLET_PRIVATE_KEY for Civic buyer operations'',
        ''Then use switch_to_seller/switch_to_buyer to activate the appropriate wallet''])"
proof -
  show "sublist ''switch_to_seller''
      ''Use switch_to_seller or switch_to_buyer to activate a wallet''"
    using instruction_mentions_switch(1) [of "'' or switch_to_buyer to activate a wallet''"]
    by simp
  show "sublist ''switch_to_seller''
      ''Use switch_to_seller (for minting) to activate the appropriate wallet''"
    using instruction_mentions_switch(1)
      [of "'' (for minting) to activate the appropriate wallet''"]
    by simp
  show "sublist ''switch_to_seller'' ''Use switch_to_seller to activate a wallet''"
    using instruction_mentions_switch(1) [of "'' to activate a wallet''"]
    by simp
  show "sublist ''switch_to_seller''
     ''Use switch_to_seller (for minting) or switch_to_buyer (for purchasing) to activate the appropriate wallet''"
    using instruction_mentions_switch(1)
      [of "'' (for minting) or switch_to_buyer (for purchasing) to activate the appropriate wallet''"]
    by simp
  show "sublist ''switch_to_seller''
     (concat
       [''Set role-based wallet environment variables:'',
        ''- CAT_MM_SELLER_WALLET_PRIVATE_KEY for MetaMask seller operations'',
        ''- CAT_MM_BUYER_WALLET_PRIVATE_KEY for MetaMask buyer operations'',
        ''- CM_SELLER_WALLET_PRIVATE_KEY for Crossmint seller operations'',
        ''- CVC_BUYER_WALLET_PRIVATE_KEY for Civic buyer operations'',
        ''Then use switch_to_seller/switch_to_buyer to activate the appropriate wallet''])"
    using instruction_mentions_switch(2)
      [of "concat
       [''Set role-based wallet environment variables:'',
        ''- CAT_MM_SELLER_WALLET_PRIVATE_KEY for MetaMask seller operations'',
        ''- CAT_MM_BUYER_WALLET_PRIVATE_KEY for MetaMask buyer operations'',
        ''- CM_SELLER_WALLET_PRIVATE_KEY for Crossmint seller operations'',
        ''- CVC_BUYER_WALLET_PRIVATE_KEY for Civic buyer operations'']"
        "''/switch_to_buyer to activate the appropriate wallet''"]
    by simp
qed

lemma callTool_no_wallet:
  assumes "getCurrentWallet (walletManager (restoreIfNoCurrent s)) = None"
  shows "\<exists>reply. callTool W tool s = (Returned reply, s) \<and> noWalletReply reply \<and>
    sublist ''switch_to_seller'' (replyInstruction reply)"
proof -
  have same: "restoreIfNoCurrent s = s"
    using assms by (rule restoreIfNoCurrent_unchanged)
  have none: "getCurrentWallet (walletManager s) = None"
    using assms same by simp
  show ?thesis
    by (cases tool)
      (simp_all add: callTool_def walletOperation_def same none noWalletReply_def
        replyInstruction_def instructions_mention_switch del: concat.simps)
qed

lemma callTool_with_wallet:
  assumes "getCurrentWallet (walletManager (restoreIfNoCurrent s)) \<noteq> None"
    and "fst (callTool W tool s) = Returned reply"
  shows "\<not> noWalletReply reply"
proof -
  obtain cw where cw: "getCurrentWallet (walletManager (restoreIfNoCurrent s)) = Some cw"
    using assms(1) by blast
  show ?thesis
    using assms(2)
    by (cases tool)
      (auto simp: callTool_def walletOperation_def cw noWalletReply_def Let_def
        split: prod.splits outcome.splits)
qed

text \<open>
  C8. Each of the seven tools returns a reply and never throws. When no wallet is
  current it first calls \<open>restoreLastActiveWallet\<close> and goes on from the state that this
  call leaves. When there is still no current wallet, it returns the reply for the
  missing wallet, whose instruction names \<open>switch_to_seller\<close>, and leaves the state as it
  was; when there is a current wallet, its reply is not that one.
\<close>

theorem callTool_no_active_wallet:
  "(\<exists>reply s'. callTool W tool s = (Returned reply, s')) \<and>
   (getCurrentWallet (walletManager s) = None \<longrightarrow>
      callTool W tool s =
        callTool W tool (s\<lparr>walletManager := snd (restoreLastActiveWallet (walletManager s))\<rparr>)) \<and>
   (getCurrentWallet (walletManager (restoreIfNoCurrent s)) = None \<longrightarrow>
      (\<exists>reply. callTool W tool s = (Returned reply, s) \<and> noWalletReply reply \<and>
         sublist ''switch_to_seller'' (replyInstruction reply))) \<and>
   (getCurrentWallet (walletManager (restoreIfNoCurrent s)) \<noteq> None \<longrightarrow>
      (\<forall>reply. fst (callTool W tool s) = Returned reply \<longrightarrow> \<not> noWalletReply reply))"
proof (intro conjI impI allI)
  show "\<exists>reply s'. callTool W tool s = (Returned reply, s')"
    by (rule callTool_returns)
next
  assume "getCurrentWallet (walletManager s) = None"
  then have "restoreIfNoCurrent s =
      s\<lparr>walletManager := snd (restoreLastActiveWallet (walletManager s))\<rparr>"
    by (simp add: restoreIfNoCurrent_def)
  then show "callTool W tool s =
      callTool W tool (s\<lparr>walletManager := snd (restoreLastActiveWallet (walletManager s))\<rparr>)"
    using callTool_restored [of W tool s] by simp
next
  assume "getCurrentWallet (walletManager (restoreIfNoCurrent s)) = None"
  then show "\<exists>reply. callTool W tool s = (Returned reply, s) \<and> noWalletReply reply \<and>
      sublist ''switch_to_seller'' (replyInstruction reply)"
    by (rule callTool_no_wallet)
next
  fix reply
  assume "getCurrentWallet (walletManager (restoreIfNoCurrent s)) \<noteq> None"
    and "fst (callTool W tool s) = Returned reply"
  then show "\<not> noWalletReply reply"
    by (rule callTool_with_wallet)
qed

lemma initialState_emptyWorld:
  "initialState emptyWorld =
    \<lparr>walletManager = \<lparr>wallets = [], currentWallet = None, lastActiveWalletId = None\<rparr>,
     goatTools = None, goatToolsLastWalletId = None, registeredTools = staticTools,
     onChainToolsCalls = []\<rparr>"
proof -
  have "admitted emptyWorld = []"
    by (simp add: emptyWorld_def admitted_def configs_def admit_def exampleWorld_def
        validKey_None)
  then have "loadWallets emptyWorld =
      \<lparr>wallets = [], currentWallet = None, lastActiveWalletId = None\<rparr>"
    by (simp add: loadWallets_def loadLoop_eq selectCurrent_def)
  then show ?thesis
    by (simp add: initialState_def initializeGoatTools_def getCurrentWallet_def)
qed

theorem callTool_no_active_wallet_witness:
  "getCurrentWallet (walletManager (initialState emptyWorld)) = None \<and>
   getCurrentWallet (walletManager (restoreIfNoCurrent (initialState emptyWorld))) = None \<and>
   callTool emptyWorld transfer_erc6960 (initialState emptyWorld) =
     (Returned (NoActiveWallet ''No active wallet''
        ''Use switch_to_seller or switch_to_buyer to activate a wallet''),
      initialState emptyWorld) \<and>
   getCurrentWallet (walletManager clearedState) = None \<and>
   getCurrentWallet (walletManager (restoreIfNoCurrent clearedState)) = Some crossmintSeller \<and>
   fst (callTool crossmintWorld get_current_wallet clearedState) =
     Returned (CurrentWallet (walletInfo crossmintSeller) ''cm_seller'' True True True)"
proof -
  have empty: "getCurrentWallet (walletManager (initialState emptyWorld)) = None"
    "getCurrentWallet (walletManager (restoreIfNoCurrent (initialState emptyWorld))) = None"
    by (simp_all add: initialState_emptyWorld restoreIfNoCurrent_def getCurrentWallet_def
        restoreLastActiveWallet_def)
  have cleared: "getCurrentWallet (walletManager clearedState) = None"
    by (simp add: clearedState_def getCurrentWallet_def)
  have restored: "restoreIfNoCurrent clearedState = initialState crossmintWorld"
    by (simp add: restoreIfNoCurrent_def clearedState_def getCurrentWallet_def
        restoreLastActiveWallet_def loadWallets_crossmintWorld map_has_def map_get_def
        initialState_crossmintWorld)
  have current: "getCurrentWallet (walletManager (initialState crossmintWorld)) =
      Some crossmintSeller"
    by (simp add: initialState_crossmintWorld getCurrentWallet_def loadWallets_crossmintWorld)
  have reply: "fst (callTool crossmintWorld get_current_wallet clearedState) =
      Returned (CurrentWallet (walletInfo crossmintSeller) ''cm_seller'' True True True)"
    using current
    by (simp add: callTool_def restored ensureGoatToolsForCurrentWallet_def
        initialState_crossmintWorld example_wallet_fields)
  have no_reply: "callTool emptyWorld transfer_erc6960 (initialState emptyWorld) =
     (Returned (NoActiveWallet ''No active wallet''
        ''Use switch_to_seller or switch_to_buyer to activate a wallet''),
      initialState emptyWorld)"
    using empty
    by (simp add: callTool_def walletOperation_def restoreIfNoCurrent_def
        restoreLastActiveWallet_def initialState_emptyWorld)
  show ?thesis
    using empty cleared restored current reply no_reply
      callTool_no_active_wallet [of emptyWorld transfer_erc6960 "initialState emptyWorld"]
      callTool_no_active_wallet [of crossmintWorld get_current_wallet clearedState]
    by simp
qed

section \<open>The registry is fixed after the load\<close>

text \<open>
  No operation of the server changes the registry, so every state that the server
  reaches has the registry that \<open>loadWallets\<close> built: the assumption of the theorems
  on \<open>switch_to_role\<close> holds in all of them.
\<close>

lemma wallets_switchWallet: "wallets (snd (switchWallet i m)) = wallets m"
  by (simp add: switchWallet_def split: option.splits)

lemma wallets_restoreLastActiveWallet: "wallets (snd (restoreLastActiveWallet m)) = wallets m"
  by (simp add: restoreLastActiveWallet_def split: option.splits)

lemma walletManager_ensureGoatTools:
  "walletManager (snd (ensureGoatToolsForCurrentWallet W s)) = walletManager s"
  by (simp add: ensureGoatToolsForCurrentWallet_def walletManager_initializeGoatTools
      split: option.splits)

lemma wallets_initialState: "wallets (walletManager (initialState W)) = wallets (loadWallets W)"
  by (simp add: initialState_def walletManager_initializeGoatTools)

lemma wallets_switch_body:
  "wallets (walletManager (snd
     (case target of
        None \<Rightarrow> (e, s)
      | Some t \<Rightarrow>
          (case switchWallet (wallet_id t) (walletManager s) of
             (False, m') \<Rightarrow> (f t, s\<lparr>walletManager := m'\<rparr>)
           | (True, m') \<Rightarrow>
               (case initializeGoatTools W True (s\<lparr>walletManager := m'\<rparr>) of
                  (ok, s') \<Rightarrow> (g t ok, s')))))) = wallets (walletManager s)"
proof (cases target)
  case None
  then show ?thesis by simp
next
  case (Some t)
  show ?thesis
  proof (cases "map_get (wallets (walletManager s)) (wallet_id t)")
    case None
    then show ?thesis
      using Some by (simp add: switchWallet_def)
  next
    case (Some w)
    then show ?thesis
      using \<open>target = Some t\<close>
        walletManager_initializeGoatTools [of W True
          "s\<lparr>walletManager := (walletManager s)
              \<lparr>currentWallet := Some w, lastActiveWalletId := Some (wallet_id t)\<rparr>\<rparr>"]
      by (auto simp: switchWallet_def split: prod.splits)
  qed
qed

lemma wallets_switch_to_role:
  "wallets (walletManager (snd (switch_to_role r instruction W p s))) = wallets (walletManager s)"
  unfolding switch_to_role_def Let_def by (rule wallets_switch_body)

lemma wallets_restoreIfNoCurrent:
  "wallets (walletManager (restoreIfNoCurrent s)) = wallets (walletManager s)"
  by (simp add: restoreIfNoCurrent_def wallets_restoreLastActiveWallet)

lemma walletManager_walletOperation:
  "walletManager (snd (walletOperation W tool instruction s)) =
     walletManager (restoreIfNoCurrent s)"
  by (simp add: walletOperation_def Let_def split: option.splits outcome.splits)

lemma walletManager_tryBlock:
  "walletManager (snd (tryBlock W tool s)) = walletManager (restoreIfNoCurrent s)"
proof -
  obtain goatReady s2
    where ensure: "ensureGoatToolsForCurrentWallet W (restoreIfNoCurrent s) = (goatReady, s2)"
    by (cases "ensureGoatToolsForCurrentWallet W (restoreIfNoCurrent s)")
  have same: "walletManager s2 = walletManager (restoreIfNoCurrent s)"
    using walletManager_ensureGoatTools [of W "restoreIfNoCurrent s"] ensure by simp
  show ?thesis
  proof (cases tool)
    case get_current_wallet
    then show ?thesis
      by (simp add: Let_def ensure same split: option.splits)
  next
    case get_wallet_info
    then show ?thesis
      by (simp add: Let_def ensure same split: option.splits)
  next
    case mint_nft_advanced
    then show ?thesis
      by (simp add: Let_def ensure same split: option.splits outcome.splits)
  qed (simp_all add: walletManager_walletOperation)
qed

lemma wallets_callTool:
  "wallets (walletManager (snd (callTool W tool s))) = wallets (walletManager s)"
proof -
  have "walletManager (snd (callTool W tool s)) = walletManager (snd (tryBlock W tool s))"
    by (simp add: callTool_def split: prod.splits outcome.splits)
  then show ?thesis
    by (simp add: walletManager_tryBlock wallets_restoreIfNoCurrent)
qed

end
